theory Spec2Isabelle
  imports Main "HOL-Library.Word"
begin

section \<open>The Oracle C shim: data model\<close>

text \<open>
  The model follows \<^verbatim>\<open>protocol/c_shim/oracle_c_api.cc\<close> in the build with
  \<^verbatim>\<open>HAVE_JANUS_ORACLE_GRPC_STUBS\<close> defined; of the build without it only \<^verbatim>\<open>janus_oracle_definition_at\<close>
  is modelled, for comparison.

  A C pointer that may be null is an \<open>option\<close>: \<open>None\<close> is the null pointer. A
  \<^verbatim>\<open>const char*\<close> is a \<open>string option\<close>. An out-parameter \<^verbatim>\<open>T* p\<close> is a
  \<open>T option\<close>: \<open>None\<close> when the caller passed a null pointer, \<open>Some v\<close> when it points
  to a cell that holds \<open>v\<close>; every function returns the cells as they are when it returns.
  \<^verbatim>\<open>uint32_t\<close> and \<^verbatim>\<open>uint16_t\<close> are words; the C \<^verbatim>\<open>int\<close> status codes are \<open>int\<close>.
\<close>

type_synonym u16 = "16 word"
type_synonym u32 = "32 word"
type_synonym cstr = "string option"
type_synonym void_ptr = "nat option"

text \<open>\<^verbatim>\<open>if (p) *p = v;\<close>\<close>

definition store :: "'a option \<Rightarrow> 'a \<Rightarrow> 'a option" where
  "store p v = (case p of None \<Rightarrow> None | Some _ \<Rightarrow> Some v)"

text \<open>\<^verbatim>\<open>s ? s : ""\<close>\<close>

definition or_empty :: "cstr \<Rightarrow> string" where
  "or_empty s = (case s of None \<Rightarrow> [] | Some t \<Rightarrow> t)"

subsection \<open>The allocator\<close>

text \<open>
  \<^verbatim>\<open>malloc\<close> may fail at any call. The heap is the list of the outcomes of the calls to
  come (\<open>True\<close>: the block is returned, \<open>False\<close>: null is returned); each call takes the
  head, and once the list is used up every call succeeds.
\<close>

type_synonym heap = "bool list"

fun malloc :: "heap \<Rightarrow> bool \<times> heap" where
  "malloc [] = (True, [])"
| "malloc (b # h) = (b, h)"

text \<open>\<^verbatim>\<open>dup_cstr\<close>: null for the empty string (no allocation is tried) and null when the
  allocation fails; otherwise a fresh copy of the bytes.\<close>

definition dup_cstr :: "string \<Rightarrow> heap \<Rightarrow> cstr \<times> heap" where
  "dup_cstr s h =
     (if s = [] then (None, h)
      else (case malloc h of
              (False, h') \<Rightarrow> (None, h')
            | (True, h') \<Rightarrow> (Some s, h')))"

subsection \<open>The transport's status\<close>

datatype StatusCode =
    OK | CANCELLED | UNKNOWN | INVALID_ARGUMENT | DEADLINE_EXCEEDED | NOT_FOUND
  | ALREADY_EXISTS | PERMISSION_DENIED | RESOURCE_EXHAUSTED | FAILED_PRECONDITION
  | ABORTED | OUT_OF_RANGE | UNIMPLEMENTED | INTERNAL | UNAVAILABLE | DATA_LOSS
  | UNAUTHENTICATED

datatype Status = Status (error_code: StatusCode) (error_message: string)

definition ok :: "Status \<Rightarrow> bool" where
  "ok st = (error_code st = OK)"

definition Status_OK :: Status where
  "Status_OK = Status OK []"

subsection \<open>Wire messages\<close>

record DocUpdateRequest =
  du_uri :: string
  du_content :: string

record DocUpdateResponse =
  du_ok :: bool

record PositionRequest =
  pr_uri :: string
  pr_line :: u32
  pr_character :: u32

record HoverAtResponse =
  hr_markdown :: string

record DefinitionAtResponse =
  dr_found :: bool
  dr_uri :: string
  dr_line :: u32
  dr_character :: u32

record ReferencesAtRequest =
  rr_uri :: string
  rr_line :: u32
  rr_character :: u32
  rr_include_declaration :: bool

record Location =
  loc_uri :: string
  loc_line :: u32
  loc_character :: u32

record ReferencesAtResponse =
  locations :: "Location list"

text \<open>A freshly constructed message has every field at its default.\<close>

definition new_DocUpdateResponse :: DocUpdateResponse where
  "new_DocUpdateResponse = \<lparr>du_ok = False\<rparr>"

definition new_HoverAtResponse :: HoverAtResponse where
  "new_HoverAtResponse = \<lparr>hr_markdown = []\<rparr>"

definition new_DefinitionAtResponse :: DefinitionAtResponse where
  "new_DefinitionAtResponse = \<lparr>dr_found = False, dr_uri = [], dr_line = 0, dr_character = 0\<rparr>"

definition new_ReferencesAtResponse :: ReferencesAtResponse where
  "new_ReferencesAtResponse = \<lparr>locations = []\<rparr>"

subsection \<open>The client handle\<close>

text \<open>
  The generated stub is outside the repository: it is a parameter. Each method takes the
  call's deadline (the handle's \<open>rpc_timeout_ms\<close>, counted from the moment of the call)
  and the request, and gives the status and the response message.
\<close>

record Stub =
  Stub_DocUpdate :: "u32 \<Rightarrow> DocUpdateRequest \<Rightarrow> Status \<times> DocUpdateResponse"
  Stub_HoverAt :: "u32 \<Rightarrow> PositionRequest \<Rightarrow> Status \<times> HoverAtResponse"
  Stub_DefinitionAt :: "u32 \<Rightarrow> PositionRequest \<Rightarrow> Status \<times> DefinitionAtResponse"
  Stub_ReferencesAt :: "u32 \<Rightarrow> ReferencesAtRequest \<Rightarrow> Status \<times> ReferencesAtResponse"

datatype Channel = Channel (target: string)

record JanusOracleClient =
  channel :: Channel
  stub :: "Stub option"
  connect_timeout_ms :: u32
  rpc_timeout_ms :: u32

text \<open>\<^verbatim>\<open>struct JanusOracleLocation\<close>, the entry of the array handed to the caller.\<close>

record JanusOracleLocation =
  jl_uri :: cstr
  jl_line :: u32
  jl_character :: u32

section \<open>Client operations\<close>

text \<open>\<^verbatim>\<open>std::to_string\<close> on a port number: its decimal digits.\<close>

fun to_string :: "nat \<Rightarrow> string" where
  "to_string n =
     (if n < 10 then [''0123456789'' ! n]
      else to_string (n div 10) @ [''0123456789'' ! (n mod 10)])"

declare to_string.simps [simp del]

text \<open>
  What \<^verbatim>\<open>janus_oracle_client_connect\<close> meets outside the repository: whether anything in
  the \<^verbatim>\<open>try\<close> block raises a C++ exception, whether \<^verbatim>\<open>new (std::nothrow)\<close> gives null,
  the stub that \<^verbatim>\<open>NewStub\<close> builds on a channel, and whether \<^verbatim>\<open>WaitForConnected\<close> sees
  the channel ready within the given number of milliseconds.
\<close>

record connect_env =
  ce_throws :: bool
  ce_new_fails :: bool
  ce_NewStub :: "Channel \<Rightarrow> Stub"
  ce_WaitForConnected :: "Channel \<Rightarrow> u32 \<Rightarrow> bool"

definition janus_oracle_client_connect ::
  "connect_env \<Rightarrow> cstr \<Rightarrow> u16 \<Rightarrow> JanusOracleClient option" where
  "janus_oracle_client_connect env host_arg port_arg =
     (if ce_throws env then None
      else
        let tgt = (case host_arg of None \<Rightarrow> ''127.0.0.1'' | Some h \<Rightarrow> h)
                    @ '':'' @ to_string (unat port_arg);
            ch = Channel tgt;
            st = ce_NewStub env ch
        in if ce_new_fails env then None
           else
             let c = \<lparr>channel = ch, stub = Some st,
                      connect_timeout_ms = 1500, rpc_timeout_ms = 1000\<rparr>
             in if \<not> ce_WaitForConnected env ch (connect_timeout_ms c) then None
                else Some c)"

definition janus_oracle_client_set_timeouts ::
  "JanusOracleClient option \<Rightarrow> u32 \<Rightarrow> u32 \<Rightarrow> int \<times> JanusOracleClient option" where
  "janus_oracle_client_set_timeouts client connect_ms rpc_ms =
     (case client of
        None \<Rightarrow> (1, None)
      | Some c \<Rightarrow>
          let c1 = (if connect_ms \<noteq> 0 then c\<lparr>connect_timeout_ms := connect_ms\<rparr> else c);
              c2 = (if rpc_ms \<noteq> 0 then c1\<lparr>rpc_timeout_ms := rpc_ms\<rparr> else c1)
          in (0, Some c2))"

text \<open>
  In the four call operations \<open>throws\<close> says whether building the request and the call
  context inside the \<^verbatim>\<open>try\<close> block raises a C++ exception (for instance
  \<^verbatim>\<open>std::bad_alloc\<close> in a string copy); the \<^verbatim>\<open>catch (...)\<close> turns it into a status code.
\<close>

definition janus_oracle_doc_update ::
  "bool \<Rightarrow> JanusOracleClient option \<Rightarrow> cstr \<Rightarrow> cstr \<Rightarrow> bool option \<Rightarrow> int \<times> bool option" where
  "janus_oracle_doc_update throws client uri content ok_out =
     (case client of
        None \<Rightarrow> (1, ok_out)
      | Some c \<Rightarrow>
          (case stub c of
             None \<Rightarrow> (1, ok_out)
           | Some st \<Rightarrow>
               if throws then (3, ok_out)
               else
                 let req = \<lparr>du_uri = or_empty uri, du_content = or_empty content\<rparr>;
                     (status, resp) = Stub_DocUpdate st (rpc_timeout_ms c) req
                 in if \<not> ok status
                    then (if error_code status = DEADLINE_EXCEEDED then 5 else 2, ok_out)
                    else (0, store ok_out (du_ok resp))))"

definition janus_oracle_hover_at ::
  "bool \<Rightarrow> JanusOracleClient option \<Rightarrow> cstr \<Rightarrow> u32 \<Rightarrow> u32 \<Rightarrow> cstr option \<Rightarrow> heap
     \<Rightarrow> int \<times> cstr option \<times> heap" where
  "janus_oracle_hover_at throws client uri line character markdown_out h =
     (let markdown_out = store markdown_out None
      in case client of
           None \<Rightarrow> (1, markdown_out, h)
         | Some c \<Rightarrow>
             (case stub c of
                None \<Rightarrow> (1, markdown_out, h)
              | Some st \<Rightarrow>
                  if throws then (3, markdown_out, h)
                  else
                    let req = \<lparr>pr_uri = or_empty uri, pr_line = line,
                                pr_character = character\<rparr>;
                        (status, resp) = Stub_HoverAt st (rpc_timeout_ms c) req
                    in if \<not> ok status
                       then (if error_code status = DEADLINE_EXCEEDED then 5 else 2,
                             markdown_out, h)
                       else (case markdown_out of
                               None \<Rightarrow> (0, None, h)
                             | Some _ \<Rightarrow>
                                 let (p, h') = dup_cstr (hr_markdown resp) h
                                 in (0, Some p, h'))))"

definition janus_oracle_definition_at ::
  "bool \<Rightarrow> JanusOracleClient option \<Rightarrow> cstr \<Rightarrow> u32 \<Rightarrow> u32
     \<Rightarrow> bool option \<Rightarrow> cstr option \<Rightarrow> u32 option \<Rightarrow> u32 option \<Rightarrow> heap
     \<Rightarrow> int \<times> bool option \<times> cstr option \<times> u32 option \<times> u32 option \<times> heap" where
  "janus_oracle_definition_at throws client uri line character
       found_out uri_out def_line_out def_character_out h =
     (let uri_out = store uri_out None;
          found_out = store found_out False
      in case client of
           None \<Rightarrow> (1, found_out, uri_out, def_line_out, def_character_out, h)
         | Some c \<Rightarrow>
             (case stub c of
                None \<Rightarrow> (1, found_out, uri_out, def_line_out, def_character_out, h)
              | Some st \<Rightarrow>
                  if throws then (3, found_out, uri_out, def_line_out, def_character_out, h)
                  else
                    let req = \<lparr>pr_uri = or_empty uri, pr_line = line,
                                pr_character = character\<rparr>;
                        (status, resp) = Stub_DefinitionAt st (rpc_timeout_ms c) req
                    in if \<not> ok status
                       then (if error_code status = DEADLINE_EXCEEDED then 5 else 2,
                             found_out, uri_out, def_line_out, def_character_out, h)
                       else
                         let found_out = store found_out (dr_found resp)
                         in if dr_found resp
                            then
                              let (uri_out, h') =
                                    (case uri_out of
                                       None \<Rightarrow> (None, h)
                                     | Some _ \<Rightarrow>
                                         let (p, h') = dup_cstr (dr_uri resp) h
                                         in (Some p, h'))
                              in (0, found_out, uri_out,
                                  store def_line_out (dr_line resp),
                                  store def_character_out (dr_character resp), h')
                            else (0, found_out, uri_out, def_line_out,
                                  def_character_out, h)))"

text \<open>
  The loop of \<^verbatim>\<open>janus_oracle_references_at\<close> that fills \<^verbatim>\<open>arr[0..n-1]\<close> from
  \<^verbatim>\<open>resp.locations(0..n-1)\<close>, one \<^verbatim>\<open>dup_cstr\<close> for each entry, in index order.
\<close>

fun copy_locations :: "Location list \<Rightarrow> heap \<Rightarrow> JanusOracleLocation list \<times> heap" where
  "copy_locations [] h = ([], h)"
| "copy_locations (loc # locs) h =
     (let (u, h1) = dup_cstr (loc_uri loc) h;
          (arr, h2) = copy_locations locs h1
      in (\<lparr>jl_uri = u, jl_line = loc_line loc, jl_character = loc_character loc\<rparr> # arr, h2))"

text \<open>
  The array pointer handed back through \<^verbatim>\<open>locations_out\<close> is \<open>None\<close> (null) or the
  array. \<open>n\<close> is the \<^verbatim>\<open>uint32_t\<close> cast of the response's size, and the loop runs over
  the first \<open>n\<close> entries.
\<close>

definition janus_oracle_references_at ::
  "bool \<Rightarrow> JanusOracleClient option \<Rightarrow> cstr \<Rightarrow> u32 \<Rightarrow> u32 \<Rightarrow> bool
     \<Rightarrow> JanusOracleLocation list option option \<Rightarrow> u32 option \<Rightarrow> heap
     \<Rightarrow> int \<times> JanusOracleLocation list option option \<times> u32 option \<times> heap" where
  "janus_oracle_references_at throws client uri line character include_declaration
       locations_out count_out h =
     (let locations_out = store locations_out None;
          count_out = store count_out 0
      in case client of
           None \<Rightarrow> (1, locations_out, count_out, h)
         | Some c \<Rightarrow>
             (case stub c of
                None \<Rightarrow> (1, locations_out, count_out, h)
              | Some st \<Rightarrow>
                  if throws then (4, locations_out, count_out, h)
                  else
                    let req = \<lparr>rr_uri = or_empty uri, rr_line = line,
                                rr_character = character,
                                rr_include_declaration = include_declaration\<rparr>;
                        (status, resp) = Stub_ReferencesAt st (rpc_timeout_ms c) req
                    in if \<not> ok status
                       then (if error_code status = DEADLINE_EXCEEDED then 5 else 2,
                             locations_out, count_out, h)
                       else
                         let n = (of_nat (length (locations resp)) :: u32)
                         in if n = 0 then (0, locations_out, count_out, h)
                            else
                              (case malloc h of
                                 (False, h1) \<Rightarrow> (3, locations_out, count_out, h1)
                               | (True, h1) \<Rightarrow>
                                   let (arr, h2) =
                                         copy_locations (take (unat n) (locations resp)) h1
                                   in (0, store locations_out (Some arr),
                                       store count_out n, h2))))"

subsection \<open>The build without gRPC stubs\<close>


section \<open>The server\<close>

text \<open>
  A handler is a C function pointer. It receives the request fields and the opaque
  \<^verbatim>\<open>user\<close> pointer, may change anything it can reach (the world \<open>'w\<close>), and gives its
  return code and the final contents of its out-parameters. The adapter initialises
  those to \<^verbatim>\<open>false\<close>, null and 0 before the call, so a handler that writes nothing
  is one that gives these values back. The references handler calls the sink it is given
  once for each location: its result holds the arguments of these calls, in call order.
\<close>

type_synonym 'w JanusDocUpdateFn =
  "string \<Rightarrow> string \<Rightarrow> void_ptr \<Rightarrow> 'w \<Rightarrow> int \<times> bool \<times> 'w"

type_synonym 'w JanusHoverAtFn =
  "string \<Rightarrow> u32 \<Rightarrow> u32 \<Rightarrow> void_ptr \<Rightarrow> 'w \<Rightarrow> int \<times> cstr \<times> 'w"

type_synonym 'w JanusDefinitionAtFn =
  "string \<Rightarrow> u32 \<Rightarrow> u32 \<Rightarrow> void_ptr \<Rightarrow> 'w \<Rightarrow> int \<times> (bool \<times> cstr \<times> u32 \<times> u32) \<times> 'w"

type_synonym sink_call = "cstr \<times> u32 \<times> u32"

type_synonym 'w JanusReferencesAtFn =
  "string \<Rightarrow> u32 \<Rightarrow> u32 \<Rightarrow> bool \<Rightarrow> void_ptr \<Rightarrow> 'w \<Rightarrow> int \<times> sink_call list \<times> 'w"

text \<open>\<^verbatim>\<open>grpc::Server\<close>, the listening endpoint, known by the address it is bound to.\<close>

datatype Server = Server (address: string)

record 'w JanusOracleServer =
  host :: string
  port :: u16
  server :: "Server option"
  on_doc_update :: "'w JanusDocUpdateFn option"
  on_hover_at :: "'w JanusHoverAtFn option"
  on_definition_at :: "'w JanusDefinitionAtFn option"
  on_references_at :: "'w JanusReferencesAtFn option"
  user :: void_ptr
  service :: bool

subsection \<open>The service adapter\<close>

text \<open>
  Each method of \<^verbatim>\<open>ServiceImpl\<close> takes the owner, the request, the response message it
  is to fill and the world, and gives the status, the response message and the world as
  they are when it returns.
\<close>

definition ServiceImpl_DocUpdate ::
  "'w JanusOracleServer \<Rightarrow> DocUpdateRequest \<Rightarrow> DocUpdateResponse \<Rightarrow> 'w
     \<Rightarrow> Status \<times> DocUpdateResponse \<times> 'w" where
  "ServiceImpl_DocUpdate owner req resp w =
     (case on_doc_update owner of
        None \<Rightarrow> (Status UNIMPLEMENTED ''no handler'', resp, w)
      | Some f \<Rightarrow>
          let (rc, ok_v, w') = f (du_uri req) (du_content req) (user owner) w
          in if rc \<noteq> 0 then (Status INTERNAL ''handler error'', resp, w')
             else (Status_OK, resp\<lparr>du_ok := ok_v\<rparr>, w'))"

definition ServiceImpl_HoverAt ::
  "'w JanusOracleServer \<Rightarrow> PositionRequest \<Rightarrow> HoverAtResponse \<Rightarrow> 'w
     \<Rightarrow> Status \<times> HoverAtResponse \<times> 'w" where
  "ServiceImpl_HoverAt owner req resp w =
     (case on_hover_at owner of
        None \<Rightarrow> (Status UNIMPLEMENTED ''no handler'', resp, w)
      | Some f \<Rightarrow>
          let (rc, md, w') = f (pr_uri req) (pr_line req) (pr_character req) (user owner) w
          in if rc \<noteq> 0 then (Status INTERNAL ''handler error'', resp, w')
             else (Status_OK,
                   (case md of None \<Rightarrow> resp | Some m \<Rightarrow> resp\<lparr>hr_markdown := m\<rparr>), w'))"

definition ServiceImpl_DefinitionAt ::
  "'w JanusOracleServer \<Rightarrow> PositionRequest \<Rightarrow> DefinitionAtResponse \<Rightarrow> 'w
     \<Rightarrow> Status \<times> DefinitionAtResponse \<times> 'w" where
  "ServiceImpl_DefinitionAt owner req resp w =
     (case on_definition_at owner of
        None \<Rightarrow> (Status UNIMPLEMENTED ''no handler'', resp, w)
      | Some f \<Rightarrow>
          let (rc, (found, def_uri, line, ch), w') =
                f (pr_uri req) (pr_line req) (pr_character req) (user owner) w
          in if rc \<noteq> 0 then (Status INTERNAL ''handler error'', resp, w')
             else
               let resp1 = resp\<lparr>dr_found := found\<rparr>
               in if found
                  then
                    let resp2 = (case def_uri of None \<Rightarrow> resp1
                                 | Some u \<Rightarrow> resp1\<lparr>dr_uri := u\<rparr>)
                    in (Status_OK, resp2\<lparr>dr_line := line, dr_character := ch\<rparr>, w')
                  else (Status_OK, resp1, w'))"

definition sink_to_response :: "ReferencesAtResponse \<Rightarrow> sink_call \<Rightarrow> ReferencesAtResponse" where
  "sink_to_response resp call =
     (case call of (uri, line, character) \<Rightarrow>
        let loc0 = \<lparr>loc_uri = [], loc_line = 0, loc_character = 0\<rparr>;
            loc1 = (case uri of None \<Rightarrow> loc0 | Some u \<Rightarrow> loc0\<lparr>loc_uri := u\<rparr>)
        in resp\<lparr>locations := locations resp
                    @ [loc1\<lparr>loc_line := line, loc_character := character\<rparr>]\<rparr>)"

text \<open>
  The handler runs with \<^verbatim>\<open>sink_to_response\<close> as its sink and the response as the
  sink's target, so each of its sink calls has reached the response by the time its
  return code is looked at.
\<close>

definition ServiceImpl_ReferencesAt ::
  "'w JanusOracleServer \<Rightarrow> ReferencesAtRequest \<Rightarrow> ReferencesAtResponse \<Rightarrow> 'w
     \<Rightarrow> Status \<times> ReferencesAtResponse \<times> 'w" where
  "ServiceImpl_ReferencesAt owner req resp w =
     (case on_references_at owner of
        None \<Rightarrow> (Status UNIMPLEMENTED ''no handler'', resp, w)
      | Some f \<Rightarrow>
          let (rc, calls, w') =
                f (rr_uri req) (rr_line req) (rr_character req)
                  (rr_include_declaration req) (user owner) w;
              resp' = foldl sink_to_response resp calls
          in if rc \<noteq> 0 then (Status INTERNAL ''handler error'', resp', w')
             else (Status_OK, resp', w'))"

subsection \<open>Lifecycle\<close>

text \<open>
  \<^verbatim>\<open>janus_oracle_server_create\<close>: \<open>new_fails\<close> says that \<^verbatim>\<open>new (std::nothrow)\<close> gave
  null, \<open>throws\<close> that the string copy or \<^verbatim>\<open>make_unique\<close> raised an exception.
\<close>

definition janus_oracle_server_create ::
  "bool \<Rightarrow> bool \<Rightarrow> cstr \<Rightarrow> u16 \<Rightarrow> 'w JanusOracleServer option" where
  "janus_oracle_server_create new_fails throws host_arg port_arg =
     (if new_fails then None
      else if throws then None
      else Some \<lparr>host = (case host_arg of None \<Rightarrow> ''127.0.0.1'' | Some h \<Rightarrow> h),
                 port = port_arg, server = None,
                 on_doc_update = None, on_hover_at = None,
                 on_definition_at = None, on_references_at = None,
                 user = None, service = True\<rparr>)"

definition janus_oracle_server_set_handlers ::
  "'w JanusOracleServer option \<Rightarrow> 'w JanusDocUpdateFn option \<Rightarrow> 'w JanusHoverAtFn option
     \<Rightarrow> 'w JanusDefinitionAtFn option \<Rightarrow> 'w JanusReferencesAtFn option \<Rightarrow> void_ptr
     \<Rightarrow> int \<times> 'w JanusOracleServer option" where
  "janus_oracle_server_set_handlers srv f_doc f_hover f_def f_refs user_arg =
     (case srv of
        None \<Rightarrow> (1, None)
      | Some s \<Rightarrow>
          (0, Some (s\<lparr>on_doc_update := f_doc, on_hover_at := f_hover,
                      on_definition_at := f_def, on_references_at := f_refs,
                      user := user_arg\<rparr>)))"

text \<open>
  What \<^verbatim>\<open>janus_oracle_server_start\<close> can meet: an exception before the endpoint is
  built, \<^verbatim>\<open>BuildAndStart\<close> giving null, an exception when the serving thread is
  launched (the endpoint is then already stored in the handle), or none of these.
\<close>

datatype start_outcome = Setup_throws | Build_null | Thread_throws | Running

definition janus_oracle_server_start ::
  "start_outcome \<Rightarrow> 'w JanusOracleServer option \<Rightarrow> int \<times> 'w JanusOracleServer option" where
  "janus_oracle_server_start out srv =
     (case srv of
        None \<Rightarrow> (1, None)
      | Some s \<Rightarrow>
          let addr = host s @ '':'' @ to_string (unat (port s))
          in (case out of
                Setup_throws \<Rightarrow> (3, Some s)
              | Build_null \<Rightarrow> (2, Some (s\<lparr>server := None\<rparr>))
              | Thread_throws \<Rightarrow> (3, Some (s\<lparr>server := Some (Server addr)\<rparr>))
              | Running \<Rightarrow> (0, Some (s\<lparr>server := Some (Server addr)\<rparr>))))"

text \<open>
  \<^verbatim>\<open>janus_oracle_server_stop\<close>. The log holds the endpoints on which
  \<^verbatim>\<open>Shutdown()\<close> has been called, oldest first.
\<close>

definition janus_oracle_server_stop ::
  "'w JanusOracleServer option \<Rightarrow> Server list
     \<Rightarrow> int \<times> 'w JanusOracleServer option \<times> Server list" where
  "janus_oracle_server_stop srv log =
     (case srv of
        None \<Rightarrow> (1, None, log)
      | Some s \<Rightarrow>
          (case server s of
             None \<Rightarrow> (0, Some s, log)
           | Some g \<Rightarrow> (0, Some (s\<lparr>server := None\<rparr>), log @ [g])))"

text \<open>\<^verbatim>\<open>janus_oracle_server_destroy\<close> stops the server and frees the handle: only the
  log is left.\<close>

definition janus_oracle_server_destroy ::
  "'w JanusOracleServer option \<Rightarrow> Server list \<Rightarrow> Server list" where
  "janus_oracle_server_destroy srv log =
     (case srv of
        None \<Rightarrow> log
      | Some s \<Rightarrow> (case janus_oracle_server_stop (Some s) log of (rc, s', log') \<Rightarrow> log'))"

subsection \<open>A client served by the adapter\<close>

text \<open>
  A stub whose every call reaches the service adapter of \<open>owner\<close> and comes back: the
  adapter runs on a freshly constructed response message, with the handlers acting on
  the world \<open>w\<close>, and the client receives the adapter's status and message.
\<close>

definition served_by :: "'w JanusOracleServer \<Rightarrow> 'w \<Rightarrow> Stub" where
  "served_by owner w =
     \<lparr>Stub_DocUpdate = (\<lambda>t req.
        case ServiceImpl_DocUpdate owner req new_DocUpdateResponse w of
          (st, resp, w') \<Rightarrow> (st, resp)),
      Stub_HoverAt = (\<lambda>t req.
        case ServiceImpl_HoverAt owner req new_HoverAtResponse w of
          (st, resp, w') \<Rightarrow> (st, resp)),
      Stub_DefinitionAt = (\<lambda>t req.
        case ServiceImpl_DefinitionAt owner req new_DefinitionAtResponse w of
          (st, resp, w') \<Rightarrow> (st, resp)),
      Stub_ReferencesAt = (\<lambda>t req.
        case ServiceImpl_ReferencesAt owner req new_ReferencesAtResponse w of
          (st, resp, w') \<Rightarrow> (st, resp))\<rparr>"

subsection \<open>What a sink call leaves in the response\<close>

text \<open>The location that one call of the sink appends: a null uri leaves the field empty.\<close>

definition location_of_call :: "sink_call \<Rightarrow> Location" where
  "location_of_call call =
     (case call of (uri, line, character) \<Rightarrow>
        \<lparr>loc_uri = or_empty uri, loc_line = line, loc_character = character\<rparr>)"

subsection \<open>Which allocation serves which entry\<close>

text \<open>
  \<open>outcome h k\<close> is the result of the \<open>k\<close>-th call of \<open>malloc\<close> to come on heap \<open>h\<close>
  (counted from 0). \<open>copies_before uris i\<close> is the number of allocations that the copy
  loop has asked for before it reaches entry \<open>i\<close>: one for each earlier non-empty uri.
\<close>

definition outcome :: "heap \<Rightarrow> nat \<Rightarrow> bool" where
  "outcome h k = (if k < length h then h ! k else True)"

definition copies_before :: "string list \<Rightarrow> nat \<Rightarrow> nat" where
  "copies_before uris i = length (filter (\<lambda>s. s \<noteq> []) (take i uris))"

section \<open>Sample handlers and handles\<close>

text \<open>
  A small server for concrete runs. Its world is the number of handler invocations so
  far. The document handler fails on empty content, the other three on line 0; at
  character 0 there is no hover, no definition and no reference.
\<close>

definition sample_doc_update :: "nat JanusDocUpdateFn" where
  "sample_doc_update uri content u w = (if content = [] then 1 else 0, True, Suc w)"

definition sample_hover_at :: "nat JanusHoverAtFn" where
  "sample_hover_at uri line character u w =
     (if line = 0 then 1 else 0,
      if character = 0 then None else Some ''**fn** main'', Suc w)"

definition sample_definition_at :: "nat JanusDefinitionAtFn" where
  "sample_definition_at uri line character u w =
     (if line = 0 then 1 else 0, (character \<noteq> 0, Some uri, line + 10, 4), Suc w)"

definition sample_references_at :: "nat JanusReferencesAtFn" where
  "sample_references_at uri line character include_declaration u w =
     (if line = 0 then 1 else 0,
      if character = 0 then []
      else (if include_declaration then [(Some ''decl.jan'', 1, 2)] else [])
           @ [(Some uri, 30, 4), (None, 20, 8)],
      Suc w)"

definition sample_server :: "nat JanusOracleServer" where
  "sample_server =
     \<lparr>host = ''127.0.0.1'', port = 50051, server = None,
      on_doc_update = Some sample_doc_update, on_hover_at = Some sample_hover_at,
      on_definition_at = Some sample_definition_at,
      on_references_at = Some sample_references_at,
      user = None, service = True\<rparr>"

definition sample_client :: JanusOracleClient where
  "sample_client =
     \<lparr>channel = Channel ''127.0.0.1:50051'', stub = Some (served_by sample_server 0),
      connect_timeout_ms = 1500, rpc_timeout_ms = 1000\<rparr>"

text \<open>A server with no handler set, as \<^verbatim>\<open>janus_oracle_server_create\<close> leaves it.\<close>

definition bare_server :: "nat JanusOracleServer" where
  "bare_server =
     \<lparr>host = ''127.0.0.1'', port = 50051, server = None,
      on_doc_update = None, on_hover_at = None,
      on_definition_at = None, on_references_at = None,
      user = None, service = True\<rparr>"

text \<open>
  Three surroundings for \<open>connect\<close>: the channel never becomes ready; an allocation
  inside the \<^verbatim>\<open>try\<close> block raises \<^verbatim>\<open>std::bad_alloc\<close>; the server is reached.
\<close>

definition never_ready :: connect_env where
  "never_ready =
     \<lparr>ce_throws = False, ce_new_fails = False,
      ce_NewStub = (\<lambda>ch. served_by sample_server 0),
      ce_WaitForConnected = (\<lambda>ch ms. False)\<rparr>"

definition out_of_memory :: connect_env where
  "out_of_memory =
     \<lparr>ce_throws = True, ce_new_fails = False,
      ce_NewStub = (\<lambda>ch. served_by sample_server 0),
      ce_WaitForConnected = (\<lambda>ch ms. True)\<rparr>"

definition reachable :: connect_env where
  "reachable =
     \<lparr>ce_throws = False, ce_new_fails = False,
      ce_NewStub = (\<lambda>ch. served_by sample_server 0),
      ce_WaitForConnected = (\<lambda>ch ms. True)\<rparr>"

text \<open>A stub whose every call runs into its deadline, and a handle on it.\<close>

definition slow_stub :: Stub where
  "slow_stub =
     \<lparr>Stub_DocUpdate = (\<lambda>t req. (Status DEADLINE_EXCEEDED ''Deadline Exceeded'', new_DocUpdateResponse)),
      Stub_HoverAt = (\<lambda>t req. (Status DEADLINE_EXCEEDED ''Deadline Exceeded'', new_HoverAtResponse)),
      Stub_DefinitionAt = (\<lambda>t req. (Status DEADLINE_EXCEEDED ''Deadline Exceeded'', new_DefinitionAtResponse)),
      Stub_ReferencesAt = (\<lambda>t req. (Status DEADLINE_EXCEEDED ''Deadline Exceeded'', new_ReferencesAtResponse))\<rparr>"

definition slow_client :: JanusOracleClient where
  "slow_client =
     \<lparr>channel = Channel ''127.0.0.1:50051'', stub = Some slow_stub,
      connect_timeout_ms = 1500, rpc_timeout_ms = 1\<rparr>"

section \<open>Properties\<close>

subsection \<open>Auxiliary facts\<close>

lemma foldl_sink_to_response:
  "foldl sink_to_response resp calls =
     resp\<lparr>locations := locations resp @ map location_of_call calls\<rparr>"
  by (induction calls arbitrary: resp)
     (auto simp: sink_to_response_def location_of_call_def or_empty_def split: option.splits)

lemma dup_cstr_cases: "fst (dup_cstr s h) = None \<or> (s \<noteq> [] \<and> fst (dup_cstr s h) = Some s)"
  by (cases h) (auto simp: dup_cstr_def split: prod.splits bool.splits)

lemma copy_locations_length: "length (fst (copy_locations locs h)) = length locs"
  by (induction locs arbitrary: h) (simp_all add: case_prod_unfold Let_def)

lemma copy_locations_line: "map jl_line (fst (copy_locations locs h)) = map loc_line locs"
  by (induction locs arbitrary: h) (simp_all add: case_prod_unfold Let_def)

lemma copy_locations_character:
  "map jl_character (fst (copy_locations locs h)) = map loc_character locs"
  by (induction locs arbitrary: h) (simp_all add: case_prod_unfold Let_def)

lemma copy_locations_uri:
  "i < length locs \<Longrightarrow>
     jl_uri (fst (copy_locations locs h) ! i) = None
     \<or> (loc_uri (locs ! i) \<noteq> []
        \<and> jl_uri (fst (copy_locations locs h) ! i) = Some (loc_uri (locs ! i)))"
proof (induction locs arbitrary: h i)
  case Nil
  then show ?case by simp
next
  case (Cons loc locs)
  obtain u h1 where d: "dup_cstr (loc_uri loc) h = (u, h1)" by (cases "dup_cstr (loc_uri loc) h")
  obtain arr h2 where c: "copy_locations locs h1 = (arr, h2)" by (cases "copy_locations locs h1")
  show ?case
  proof (cases i)
    case 0
    with d c dup_cstr_cases [of "loc_uri loc" h] show ?thesis by auto
  next
    case (Suc j)
    with Cons.prems have "j < length locs" by simp
    from Cons.IH [OF this, of h1] c d Suc show ?thesis by simp
  qed
qed



lemma unat_count: "length (xs :: 'a list) < 2 ^ 31 \<Longrightarrow> unat (of_nat (length xs) :: u32) = length xs"
  by (simp add: unat_of_nat)

lemmas sample_defs =
  sample_client_def sample_server_def sample_doc_update_def sample_hover_at_def
  sample_definition_at_def sample_references_at_def served_by_def
  ServiceImpl_DocUpdate_def ServiceImpl_HoverAt_def ServiceImpl_DefinitionAt_def
  ServiceImpl_ReferencesAt_def new_DocUpdateResponse_def new_HoverAtResponse_def
  new_DefinitionAtResponse_def new_ReferencesAtResponse_def Status_OK_def ok_def
  or_empty_def store_def

lemma store_store: "store (store p a) b = store p b"
  by (simp add: store_def split: option.splits)

lemma count_zero_iff:
  "length (xs :: 'a list) < 2 ^ 31 \<Longrightarrow> ((of_nat (length xs) :: u32) = 0) = (xs = [])"
proof -
  assume "length xs < 2 ^ 31"
  then have "unat (of_nat (length xs) :: u32) = length xs" by (rule unat_count)
  then show ?thesis by (cases xs) auto
qed

lemma references_at_reply:
  assumes "stub c = Some st"
    and "Stub_ReferencesAt st (rpc_timeout_ms c)
           \<lparr>rr_uri = or_empty uri, rr_line = line, rr_character = character,
             rr_include_declaration = incl\<rparr> = (status, resp)"
    and "ok status"
    and "length (locations resp) < 2 ^ 31"
  shows "janus_oracle_references_at False (Some c) uri line character incl
           locations_out count_out h =
     (if locations resp = [] then (0, store locations_out None, store count_out 0, h)
      else if \<not> fst (malloc h)
      then (3, store locations_out None, store count_out 0, snd (malloc h))
      else (0, store locations_out
                 (Some (fst (copy_locations (locations resp) (snd (malloc h))))),
            store count_out (of_nat (length (locations resp))),
            snd (copy_locations (locations resp) (snd (malloc h)))))"
  using assms
  by (simp add: janus_oracle_references_at_def Let_def count_zero_iff unat_count
        store_store case_prod_unfold split: bool.splits)

lemma sample_references_reply:
  "Stub_ReferencesAt (served_by sample_server 0) t
       \<lparr>rr_uri = ''a.jan'', rr_line = 1, rr_character = 1, rr_include_declaration = incl\<rparr>
     = (Status_OK,
        \<lparr>locations = (if incl then [\<lparr>loc_uri = ''decl.jan'', loc_line = 1, loc_character = 2\<rparr>]
                       else [])
                      @ [\<lparr>loc_uri = ''a.jan'', loc_line = 30, loc_character = 4\<rparr>,
                         \<lparr>loc_uri = [], loc_line = 20, loc_character = 8\<rparr>]\<rparr>)"
  by (simp add: sample_defs sink_to_response_def)

lemma or_empty_None: "or_empty None = or_empty (Some [])"
  by (simp add: or_empty_def)



text \<open>The copy loop, entry by entry: which uris are copied and what is left of the heap.\<close>

lemma dup_cstr_exact:
  "dup_cstr s h =
     (if s = [] then (None, h)
      else (if 0 < length h \<and> \<not> h ! 0 then None else Some s, drop 1 h))"
  by (cases h) (auto simp: dup_cstr_def)

lemma copy_locations_heap:
  "snd (copy_locations locs h) = drop (length (filter (\<lambda>l. loc_uri l \<noteq> []) locs)) h"
proof (induction locs arbitrary: h)
  case Nil
  then show ?case by simp
next
  case (Cons loc locs)
  show ?case
    by (simp add: case_prod_unfold Let_def Cons.IH dup_cstr_exact)
qed

lemma copy_locations_uri_exact:
  "i < length locs \<Longrightarrow>
     jl_uri (fst (copy_locations locs h) ! i) =
       (if loc_uri (locs ! i) = [] then None
        else if length (filter (\<lambda>l. loc_uri l \<noteq> []) (take i locs)) < length h
                \<and> \<not> h ! length (filter (\<lambda>l. loc_uri l \<noteq> []) (take i locs))
        then None
        else Some (loc_uri (locs ! i)))"
proof (induction locs arbitrary: h i)
  case Nil
  then show ?case by simp
next
  case (Cons loc locs)
  show ?case
  proof (cases i)
    case 0
    then show ?thesis by (simp add: case_prod_unfold Let_def dup_cstr_exact)
  next
    case (Suc j)
    with Cons.prems have j: "j < length locs" by simp
    show ?thesis
    proof (cases "loc_uri loc = []")
      case True
      with Suc Cons.IH [OF j, of h] show ?thesis
        by (simp add: case_prod_unfold Let_def dup_cstr_exact)
    next
      case False
      with Suc Cons.IH [OF j, of "drop 1 h"] show ?thesis
        by (simp add: case_prod_unfold Let_def dup_cstr_exact) (cases h; simp)
    qed
  qed
qed

lemma malloc_outcome: "malloc h = (outcome h 0, drop 1 h)"
  by (cases h) (simp_all add: outcome_def)

lemma copy_locations_uri_outcome:
  assumes "i < length locs"
  shows "jl_uri (fst (copy_locations locs h) ! i) =
           (if loc_uri (locs ! i) = [] then None
            else if outcome h (copies_before (map loc_uri locs) i)
            then Some (loc_uri (locs ! i)) else None)"
proof -
  have "filter (\<lambda>s. s \<noteq> []) (take i (map loc_uri locs))
          = map loc_uri (filter (\<lambda>l. loc_uri l \<noteq> []) (take i locs))"
    by (simp add: take_map filter_map comp_def)
  then have "copies_before (map loc_uri locs) i
          = length (filter (\<lambda>l. loc_uri l \<noteq> []) (take i locs))"
    by (simp add: copies_before_def)
  with copy_locations_uri_exact [OF assms, of h] show ?thesis
    by (auto simp: outcome_def)
qed

lemma copy_locations_heap_left:
  "snd (copy_locations locs h) = drop (copies_before (map loc_uri locs) (length locs)) h"
proof -
  have "filter (\<lambda>s. s \<noteq> []) (map loc_uri locs)
          = map loc_uri (filter (\<lambda>l. loc_uri l \<noteq> []) locs)"
    by (simp add: filter_map comp_def)
  then show ?thesis
    by (simp add: copy_locations_heap copies_before_def)
qed

lemma references_at_array:
  assumes "stub c = Some st"
    and "Stub_ReferencesAt st (rpc_timeout_ms c)
           \<lparr>rr_uri = or_empty uri, rr_line = line, rr_character = character,
             rr_include_declaration = incl\<rparr> = (status, resp)"
    and "ok status"
    and "length (locations resp) < 2 ^ 31"
    and "locations resp \<noteq> []"
    and "fst (malloc h)"
  shows "\<exists>arr.
     janus_oracle_references_at False (Some c) uri line character incl
        locations_out count_out h
       = (0, store locations_out (Some arr),
          store count_out (of_nat (length (locations resp))),
          drop (copies_before (map loc_uri (locations resp)) (length (locations resp)))
            (snd (malloc h)))
     \<and> length arr = length (locations resp)
     \<and> (\<forall>i<length (locations resp).
           jl_line (arr ! i) = loc_line (locations resp ! i)
           \<and> jl_character (arr ! i) = loc_character (locations resp ! i)
           \<and> jl_uri (arr ! i) =
               (if loc_uri (locations resp ! i) = [] then None
                else if outcome (snd (malloc h))
                          (copies_before (map loc_uri (locations resp)) i)
                then Some (loc_uri (locations resp ! i)) else None))"
proof -
  let ?locs = "locations resp"
  let ?arr = "fst (copy_locations ?locs (snd (malloc h)))"
  from references_at_reply [OF assms(1-4), of locations_out count_out h] assms(5,6)
  have "janus_oracle_references_at False (Some c) uri line character incl
        locations_out count_out h
       = (0, store locations_out (Some ?arr), store count_out (of_nat (length ?locs)),
          drop (copies_before (map loc_uri ?locs) (length ?locs)) (snd (malloc h)))"
    by (simp add: copy_locations_heap_left)
  moreover have "length ?arr = length ?locs" by (rule copy_locations_length)
  moreover have "jl_line (?arr ! i) = loc_line (?locs ! i)
      \<and> jl_character (?arr ! i) = loc_character (?locs ! i)
      \<and> jl_uri (?arr ! i) =
               (if loc_uri (?locs ! i) = [] then None
                else if outcome (snd (malloc h)) (copies_before (map loc_uri ?locs) i)
                then Some (loc_uri (?locs ! i)) else None)"
    if i: "i < length ?locs" for i
  proof -
    have "jl_line (?arr ! i) = map jl_line ?arr ! i"
      using i by (simp add: copy_locations_length)
    then have 1: "jl_line (?arr ! i) = loc_line (?locs ! i)"
      using i by (simp add: copy_locations_line)
    have "jl_character (?arr ! i) = map jl_character ?arr ! i"
      using i by (simp add: copy_locations_length)
    then have 2: "jl_character (?arr ! i) = loc_character (?locs ! i)"
      using i by (simp add: copy_locations_character)
    from 1 2 copy_locations_uri_outcome [OF i, of "snd (malloc h)"] show ?thesis by simp
  qed
  ultimately show ?thesis by blast
qed

text \<open>What \<open>definition_at\<close> writes when the reply says that nothing was found.\<close>

lemma definition_at_not_found:
  assumes "stub c = Some st"
    and "Stub_DefinitionAt st (rpc_timeout_ms c)
           \<lparr>pr_uri = or_empty uri, pr_line = line, pr_character = character\<rparr> = (status, resp)"
    and "ok status"
    and "\<not> dr_found resp"
  shows "janus_oracle_definition_at False (Some c) uri line character
           found_out uri_out def_line_out def_character_out h
         = (0, store found_out False, store uri_out None, def_line_out, def_character_out, h)"
  using assms
  by (simp add: janus_oracle_definition_at_def Let_def store_store)

subsection \<open>The claims\<close>

text \<open>
  C1, as stated, on the reference search: a handler that streams two locations to the
  sink and then returns 1 makes the adapter answer "internal error" with both locations
  already appended to the response message it was given. The sink writes into the
  response while the handler runs, before the return code is known.
\<close>

theorem references_failure_after_streaming_counterexample:
  "ServiceImpl_ReferencesAt sample_server
       \<lparr>rr_uri = ''a.jan'', rr_line = 0, rr_character = 1, rr_include_declaration = False\<rparr>
       new_ReferencesAtResponse 0
     = (Status INTERNAL ''handler error'',
        \<lparr>locations = [\<lparr>loc_uri = ''a.jan'', loc_line = 30, loc_character = 4\<rparr>,
                       \<lparr>loc_uri = [], loc_line = 20, loc_character = 8\<rparr>]\<rparr>,
        1)"
  by (simp add: sample_defs sink_to_response_def)

text \<open>
  C1, amended. For each of the four operation kinds: with no handler set the adapter
  answers "unimplemented" and touches neither the response nor the world (nothing is
  invoked). With a handler set, the handler is run once; on a non-zero return code the
  adapter answers "internal error", and for document update, hover and definition the
  response is left as it was; on a zero return code it answers OK with the handler's
  outputs copied into the response (a null string is not copied, and the definition's
  uri, line and character are copied only when found). For the reference search the
  response holds, after the locations it already had, the locations the handler
  streamed, in call order, whatever the return code.
\<close>

theorem service_adapter_dispatch:
  "(on_doc_update owner = None \<longrightarrow>
      ServiceImpl_DocUpdate owner dreq dresp w = (Status UNIMPLEMENTED ''no handler'', dresp, w))
   \<and> (on_hover_at owner = None \<longrightarrow>
      ServiceImpl_HoverAt owner preq hresp w = (Status UNIMPLEMENTED ''no handler'', hresp, w))
   \<and> (on_definition_at owner = None \<longrightarrow>
      ServiceImpl_DefinitionAt owner preq fresp w
        = (Status UNIMPLEMENTED ''no handler'', fresp, w))
   \<and> (on_references_at owner = None \<longrightarrow>
      ServiceImpl_ReferencesAt owner rreq rresp w
        = (Status UNIMPLEMENTED ''no handler'', rresp, w))
   \<and> (on_doc_update owner = Some fd
        \<and> fd (du_uri dreq) (du_content dreq) (user owner) w = (rc, okv, wa) \<longrightarrow>
      ServiceImpl_DocUpdate owner dreq dresp w
        = (if rc \<noteq> 0 then (Status INTERNAL ''handler error'', dresp, wa)
           else (Status_OK, dresp\<lparr>du_ok := okv\<rparr>, wa)))
   \<and> (on_hover_at owner = Some fh
        \<and> fh (pr_uri preq) (pr_line preq) (pr_character preq) (user owner) w = (rc, md, wa) \<longrightarrow>
      ServiceImpl_HoverAt owner preq hresp w
        = (if rc \<noteq> 0 then (Status INTERNAL ''handler error'', hresp, wa)
           else (Status_OK,
                 hresp\<lparr>hr_markdown := (case md of None \<Rightarrow> hr_markdown hresp | Some m \<Rightarrow> m)\<rparr>,
                 wa)))
   \<and> (on_definition_at owner = Some ff
        \<and> ff (pr_uri preq) (pr_line preq) (pr_character preq) (user owner) w
            = (rc, (found, def_uri, line, ch), wa) \<longrightarrow>
      ServiceImpl_DefinitionAt owner preq fresp w
        = (if rc \<noteq> 0 then (Status INTERNAL ''handler error'', fresp, wa)
           else if found
           then (Status_OK,
                 fresp\<lparr>dr_found := True,
                         dr_uri := (case def_uri of None \<Rightarrow> dr_uri fresp | Some u \<Rightarrow> u),
                         dr_line := line, dr_character := ch\<rparr>, wa)
           else (Status_OK, fresp\<lparr>dr_found := False\<rparr>, wa)))
   \<and> (on_references_at owner = Some fr
        \<and> fr (rr_uri rreq) (rr_line rreq) (rr_character rreq) (rr_include_declaration rreq)
              (user owner) w = (rc, calls, wa) \<longrightarrow>
      ServiceImpl_ReferencesAt owner rreq rresp w
        = (if rc \<noteq> 0 then Status INTERNAL ''handler error'' else Status_OK,
           rresp\<lparr>locations := locations rresp @ map location_of_call calls\<rparr>, wa))"
  by (auto simp: ServiceImpl_DocUpdate_def ServiceImpl_HoverAt_def
        ServiceImpl_DefinitionAt_def ServiceImpl_ReferencesAt_def foldl_sink_to_response
        split: option.splits)

theorem service_adapter_dispatch_witness:
  "ServiceImpl_HoverAt bare_server
       \<lparr>pr_uri = ''a.jan'', pr_line = 1, pr_character = 1\<rparr> new_HoverAtResponse 0
     = (Status UNIMPLEMENTED ''no handler'', new_HoverAtResponse, 0)
   \<and> ServiceImpl_DocUpdate sample_server
       \<lparr>du_uri = ''a.jan'', du_content = []\<rparr> new_DocUpdateResponse 0
     = (Status INTERNAL ''handler error'', new_DocUpdateResponse, 1)
   \<and> ServiceImpl_DefinitionAt sample_server
       \<lparr>pr_uri = ''a.jan'', pr_line = 1, pr_character = 1\<rparr> new_DefinitionAtResponse 0
     = (Status_OK,
        \<lparr>dr_found = True, dr_uri = ''a.jan'', dr_line = 11, dr_character = 4\<rparr>, 1)
   \<and> ServiceImpl_ReferencesAt sample_server
       \<lparr>rr_uri = ''a.jan'', rr_line = 0, rr_character = 1, rr_include_declaration = True\<rparr>
       new_ReferencesAtResponse 0
     = (Status INTERNAL ''handler error'',
        \<lparr>locations = [\<lparr>loc_uri = ''decl.jan'', loc_line = 1, loc_character = 2\<rparr>,
                       \<lparr>loc_uri = ''a.jan'', loc_line = 30, loc_character = 4\<rparr>,
                       \<lparr>loc_uri = [], loc_line = 20, loc_character = 8\<rparr>]\<rparr>,
        1)"
  using
    service_adapter_dispatch
      [where owner = bare_server
         and preq = "\<lparr>pr_uri = ''a.jan'', pr_line = 1, pr_character = 1\<rparr>"
         and hresp = new_HoverAtResponse and w = 0]
    service_adapter_dispatch
      [where owner = sample_server and fd = sample_doc_update
         and dreq = "\<lparr>du_uri = ''a.jan'', du_content = []\<rparr>"
         and dresp = new_DocUpdateResponse and w = 0 and rc = 1 and okv = True and wa = 1
         and fr = sample_references_at and calls = "[(Some ''decl.jan'', 1, 2), (Some ''a.jan'', 30, 4), (None, 20, 8)]"
         and rreq = "\<lparr>rr_uri = ''a.jan'', rr_line = 0, rr_character = 1, rr_include_declaration = True\<rparr>"
         and rresp = new_ReferencesAtResponse]
    service_adapter_dispatch
      [where owner = sample_server and ff = sample_definition_at
         and preq = "\<lparr>pr_uri = ''a.jan'', pr_line = 1, pr_character = 1\<rparr>"
         and fresp = new_DefinitionAtResponse and w = 0 and rc = 0 and found = True
         and def_uri = "Some ''a.jan''" and line = 11 and ch = 4 and wa = 1]
  by (simp add: bare_server_def sample_server_def sample_doc_update_def
        sample_definition_at_def sample_references_at_def location_of_call_def or_empty_def
        new_DefinitionAtResponse_def new_ReferencesAtResponse_def)

text \<open>
  C2, as stated, on connect: when the channel is not ready within the connect timeout,
  \<open>connect\<close> returns the null handle, and it returns the same null handle when an
  exception is caught. Its result is a handle, not a status code, so no code 5 exists
  there and a timeout cannot be told from the other failures.
\<close>

theorem connect_timeout_not_distinguished_counterexample:
  "janus_oracle_client_connect never_ready (Some ''127.0.0.1'') 0 = None
   \<and> janus_oracle_client_connect out_of_memory (Some ''127.0.0.1'') 0 = None"
  by (simp add: janus_oracle_client_connect_def never_ready_def out_of_memory_def)

text \<open>
  C2, amended. For each of the four call operations on a valid handle whose call is
  issued, the return code is 5 exactly when the transport's status is
  \<open>DEADLINE_EXCEEDED\<close>, and 2 exactly when the status is any other failure. \<open>connect\<close>
  reports the expiry of its wait (1500 ms) by the null handle, as it reports a caught
  exception and a failed allocation of the handle.
\<close>

theorem timeout_code_for_calls:
  assumes "stub c = Some st"
  shows
  "((fst (janus_oracle_doc_update False (Some c) uri content ok_out) = 5)
      = (error_code (fst (Stub_DocUpdate st (rpc_timeout_ms c)
           \<lparr>du_uri = or_empty uri, du_content = or_empty content\<rparr>)) = DEADLINE_EXCEEDED))
   \<and> ((fst (janus_oracle_doc_update False (Some c) uri content ok_out) = 2)
      = (error_code (fst (Stub_DocUpdate st (rpc_timeout_ms c)
           \<lparr>du_uri = or_empty uri, du_content = or_empty content\<rparr>))
         \<notin> {OK, DEADLINE_EXCEEDED}))
   \<and> ((fst (janus_oracle_hover_at False (Some c) uri line character markdown_out h) = 5)
      = (error_code (fst (Stub_HoverAt st (rpc_timeout_ms c)
           \<lparr>pr_uri = or_empty uri, pr_line = line, pr_character = character\<rparr>))
         = DEADLINE_EXCEEDED))
   \<and> ((fst (janus_oracle_hover_at False (Some c) uri line character markdown_out h) = 2)
      = (error_code (fst (Stub_HoverAt st (rpc_timeout_ms c)
           \<lparr>pr_uri = or_empty uri, pr_line = line, pr_character = character\<rparr>))
         \<notin> {OK, DEADLINE_EXCEEDED}))
   \<and> ((fst (janus_oracle_definition_at False (Some c) uri line character
               found_out uri_out def_line_out def_character_out h) = 5)
      = (error_code (fst (Stub_DefinitionAt st (rpc_timeout_ms c)
           \<lparr>pr_uri = or_empty uri, pr_line = line, pr_character = character\<rparr>))
         = DEADLINE_EXCEEDED))
   \<and> ((fst (janus_oracle_definition_at False (Some c) uri line character
               found_out uri_out def_line_out def_character_out h) = 2)
      = (error_code (fst (Stub_DefinitionAt st (rpc_timeout_ms c)
           \<lparr>pr_uri = or_empty uri, pr_line = line, pr_character = character\<rparr>))
         \<notin> {OK, DEADLINE_EXCEEDED}))
   \<and> ((fst (janus_oracle_references_at False (Some c) uri line character incl
               locations_out count_out h) = 5)
      = (error_code (fst (Stub_ReferencesAt st (rpc_timeout_ms c)
           \<lparr>rr_uri = or_empty uri, rr_line = line, rr_character = character,
             rr_include_declaration = incl\<rparr>)) = DEADLINE_EXCEEDED))
   \<and> ((fst (janus_oracle_references_at False (Some c) uri line character incl
               locations_out count_out h) = 2)
      = (error_code (fst (Stub_ReferencesAt st (rpc_timeout_ms c)
           \<lparr>rr_uri = or_empty uri, rr_line = line, rr_character = character,
             rr_include_declaration = incl\<rparr>)) \<notin> {OK, DEADLINE_EXCEEDED}))
   \<and> ((janus_oracle_client_connect env host_arg port_arg = None)
      = (ce_throws env \<or> ce_new_fails env
         \<or> \<not> ce_WaitForConnected env
               (Channel ((case host_arg of None \<Rightarrow> ''127.0.0.1'' | Some a \<Rightarrow> a)
                         @ '':'' @ to_string (unat port_arg))) 1500))"
  using assms
  by (simp_all add: janus_oracle_doc_update_def janus_oracle_hover_at_def
        janus_oracle_definition_at_def janus_oracle_references_at_def
        janus_oracle_client_connect_def
        ok_def case_prod_unfold Let_def split: option.splits bool.splits)

theorem timeout_code_for_calls_witness:
  "fst (janus_oracle_doc_update False (Some slow_client) (Some ''a.jan'') (Some ''text'')
          (Some False)) = 5
   \<and> fst (janus_oracle_hover_at False (Some sample_client) (Some ''a.jan'') 0 1
            (Some None) []) = 2
   \<and> janus_oracle_client_connect never_ready None 50051 = None
   \<and> janus_oracle_client_connect reachable None 50051
       = Some \<lparr>channel = Channel ''127.0.0.1:50051'', stub = Some (served_by sample_server 0),
                connect_timeout_ms = 1500, rpc_timeout_ms = 1000\<rparr>"
proof -
  have a: "stub slow_client = Some slow_stub" by (simp add: slow_client_def)
  have b: "stub sample_client = Some (served_by sample_server 0)"
    by (simp add: sample_client_def)
  note t1 = timeout_code_for_calls
      [where c = slow_client and st = slow_stub and uri = "Some ''a.jan''"
         and content = "Some ''text''" and ok_out = "Some False"
         and env = never_ready and host_arg = None and port_arg = 50051, OF a]
  note t2 = timeout_code_for_calls
      [where c = sample_client and st = "served_by sample_server 0" and uri = "Some ''a.jan''"
         and line = 0 and character = 1 and markdown_out = "Some None" and h = "[]", OF b]
  from t1 have 1: "fst (janus_oracle_doc_update False (Some slow_client) (Some ''a.jan'')
          (Some ''text'') (Some False)) = 5"
    by (simp add: slow_stub_def slow_client_def)
  from t1 have 3: "janus_oracle_client_connect never_ready None 50051 = None"
    by (simp add: never_ready_def)
  from t2 have 2: "fst (janus_oracle_hover_at False (Some sample_client) (Some ''a.jan'') 0 1
            (Some None) []) = 2"
    by (simp add: sample_defs)
  have 4: "janus_oracle_client_connect reachable None 50051
       = Some \<lparr>channel = Channel ''127.0.0.1:50051'', stub = Some (served_by sample_server 0),
                connect_timeout_ms = 1500, rpc_timeout_ms = 1000\<rparr>"
    by (simp add: janus_oracle_client_connect_def reachable_def to_string.simps)
  from 1 2 3 4 show ?thesis by simp
qed

text \<open>
  C3, as stated, when the output array cannot be allocated: the reply carries two
  locations, \<open>malloc\<close> gives null, and \<open>references_at\<close> returns 3 with a null array and
  count 0.
\<close>

theorem references_at_alloc_failure_counterexample:
  "janus_oracle_references_at False (Some sample_client) (Some ''a.jan'') 1 1 False
       (Some None) (Some 0) [False]
     = (3, Some None, Some 0, [])"
proof -
  have v: "stub sample_client = Some (served_by sample_server 0)"
    by (simp add: sample_client_def)
  have d: "Stub_ReferencesAt (served_by sample_server 0) (rpc_timeout_ms sample_client)
       \<lparr>rr_uri = or_empty (Some ''a.jan''), rr_line = 1, rr_character = 1,
         rr_include_declaration = False\<rparr>
     = (Status_OK,
        \<lparr>locations = [\<lparr>loc_uri = ''a.jan'', loc_line = 30, loc_character = 4\<rparr>,
                       \<lparr>loc_uri = [], loc_line = 20, loc_character = 8\<rparr>]\<rparr>)"
    using sample_references_reply [of "rpc_timeout_ms sample_client" False]
    by (simp add: or_empty_def)
  have k: "ok Status_OK" by (simp add: ok_def Status_OK_def)
  from references_at_reply [OF v d k, of "Some None" "Some 0" "[False]"]
  show ?thesis by (simp add: store_def)
qed

text \<open>
  C3, amended. On a valid connected handle, let the call reach a service adapter whose
  references handler streams \<open>calls\<close> to the sink and returns 0, and let the adapter's
  reply come back. If nothing was streamed, \<open>references_at\<close> returns 0 with a null array
  and count 0, and allocates nothing. If \<open>N > 0\<close> locations were streamed and the output
  array can be allocated, it returns 0 with count \<open>N\<close> and an array of exactly \<open>N\<close>
  entries, entry \<open>i\<close> holding the line and character of the \<open>i\<close>-th sink call; its uri is
  null when the streamed uri was null or empty or when the allocation of its copy fails,
  and the streamed uri otherwise. If the array cannot be allocated it returns 3 with a
  null array and count 0. (A response holds fewer than \<open>2^31\<close> entries: its size is a
  C++ \<open>int\<close>.)
\<close>

theorem references_at_entries_in_stream_order:
  assumes valid: "stub c = Some st"
    and handler: "on_references_at owner = Some f"
    and streamed: "f (or_empty uri) line character incl (user owner) w = (0, calls, wa)"
    and adapter: "ServiceImpl_ReferencesAt owner
           \<lparr>rr_uri = or_empty uri, rr_line = line, rr_character = character,
             rr_include_declaration = incl\<rparr> new_ReferencesAtResponse w = (status, resp, wa)"
    and delivered: "Stub_ReferencesAt st (rpc_timeout_ms c)
           \<lparr>rr_uri = or_empty uri, rr_line = line, rr_character = character,
             rr_include_declaration = incl\<rparr> = (status, resp)"
    and bound: "length calls < 2 ^ 31"
  shows
  "(calls = [] \<longrightarrow>
      janus_oracle_references_at False (Some c) uri line character incl
        (Some lp) (Some np) h = (0, Some None, Some 0, h))
   \<and> (calls \<noteq> [] \<and> fst (malloc h) \<longrightarrow>
      (\<exists>arr.
         janus_oracle_references_at False (Some c) uri line character incl
           (Some lp) (Some np) h
           = (0, Some (Some arr), Some (of_nat (length calls)),
              drop (copies_before (map (\<lambda>call. or_empty (fst call)) calls) (length calls))
                (snd (malloc h)))
         \<and> unat (of_nat (length calls) :: u32) = length calls
         \<and> length arr = length calls
         \<and> (\<forall>i<length calls.
               jl_line (arr ! i) = fst (snd (calls ! i))
               \<and> jl_character (arr ! i) = snd (snd (calls ! i))
               \<and> jl_uri (arr ! i) =
                   (if or_empty (fst (calls ! i)) = [] then None
                    else if outcome (snd (malloc h))
                              (copies_before (map (\<lambda>call. or_empty (fst call)) calls) i)
                    then fst (calls ! i) else None))))
   \<and> (calls \<noteq> [] \<and> \<not> fst (malloc h) \<longrightarrow>
      janus_oracle_references_at False (Some c) uri line character incl
        (Some lp) (Some np) h = (3, Some None, Some 0, snd (malloc h)))"
proof -
  let ?locs = "map location_of_call calls"
  let ?uris = "map (\<lambda>call. or_empty (fst call)) calls"
  from adapter handler streamed
  have st: "status = Status_OK" and resp: "locations resp = ?locs"
    by (auto simp: ServiceImpl_ReferencesAt_def foldl_sink_to_response
          new_ReferencesAtResponse_def)
  have okst: "ok status" by (simp add: st ok_def Status_OK_def)
  from bound resp have len: "length (locations resp) < 2 ^ 31" by simp
  note r = references_at_reply [OF valid delivered okst len, of "Some lp" "Some np" h]
  have uris: "map loc_uri (locations resp) = ?uris"
    by (simp add: resp location_of_call_def case_prod_unfold comp_def)
  have un: "unat (of_nat (length calls) :: u32) = length calls"
    using bound by (rule unat_count)
  show ?thesis
  proof (intro conjI impI)
    assume "calls = []"
    with r resp show "janus_oracle_references_at False (Some c) uri line character incl
        (Some lp) (Some np) h = (0, Some None, Some 0, h)"
      by (simp add: store_def)
  next
    assume a: "calls \<noteq> [] \<and> fst (malloc h)"
    with resp have ne: "locations resp \<noteq> []" and m: "fst (malloc h)" by simp_all
    from references_at_array [OF valid delivered okst len ne m, of "Some lp" "Some np"]
    obtain arr where
      res: "janus_oracle_references_at False (Some c) uri line character incl
          (Some lp) (Some np) h
         = (0, store (Some lp) (Some arr),
            store (Some np) (of_nat (length (locations resp))),
            drop (copies_before (map loc_uri (locations resp)) (length (locations resp)))
              (snd (malloc h)))"
      and la: "length arr = length (locations resp)"
      and en: "\<forall>i<length (locations resp).
           jl_line (arr ! i) = loc_line (locations resp ! i)
           \<and> jl_character (arr ! i) = loc_character (locations resp ! i)
           \<and> jl_uri (arr ! i) =
               (if loc_uri (locations resp ! i) = [] then None
                else if outcome (snd (malloc h))
                          (copies_before (map loc_uri (locations resp)) i)
                then Some (loc_uri (locations resp ! i)) else None)"
      by blast
    have res': "janus_oracle_references_at False (Some c) uri line character incl
           (Some lp) (Some np) h
           = (0, Some (Some arr), Some (of_nat (length calls)),
              drop (copies_before ?uris (length calls)) (snd (malloc h)))"
      using res by (simp add: uris store_def) (simp add: resp)
    have la': "length arr = length calls" using la by (simp add: resp)
    have en': "jl_line (arr ! i) = fst (snd (calls ! i))
               \<and> jl_character (arr ! i) = snd (snd (calls ! i))
               \<and> jl_uri (arr ! i) =
                   (if or_empty (fst (calls ! i)) = [] then None
                    else if outcome (snd (malloc h)) (copies_before ?uris i)
                    then fst (calls ! i) else None)"
      if i: "i < length calls" for i
    proof -
      obtain u l ch where ci: "calls ! i = (u, l, ch)" by (cases "calls ! i")
      from i have "i < length (locations resp)" by (simp add: resp)
      with en have e: "jl_line (arr ! i) = loc_line (locations resp ! i)
           \<and> jl_character (arr ! i) = loc_character (locations resp ! i)
           \<and> jl_uri (arr ! i) =
               (if loc_uri (locations resp ! i) = [] then None
                else if outcome (snd (malloc h))
                          (copies_before (map loc_uri (locations resp)) i)
                then Some (loc_uri (locations resp ! i)) else None)"
        by blast
      have li: "locations resp ! i
                  = \<lparr>loc_uri = or_empty u, loc_line = l, loc_character = ch\<rparr>"
        using i ci by (simp add: resp location_of_call_def)
      have su: "or_empty u \<noteq> [] \<Longrightarrow> Some (or_empty u) = u"
        by (cases u) (simp_all add: or_empty_def)
      from e li ci su show ?thesis by (simp add: uris)
    qed
    from res' un la' en' show "\<exists>arr.
         janus_oracle_references_at False (Some c) uri line character incl
           (Some lp) (Some np) h
           = (0, Some (Some arr), Some (of_nat (length calls)),
              drop (copies_before ?uris (length calls)) (snd (malloc h)))
         \<and> unat (of_nat (length calls) :: u32) = length calls
         \<and> length arr = length calls
         \<and> (\<forall>i<length calls.
               jl_line (arr ! i) = fst (snd (calls ! i))
               \<and> jl_character (arr ! i) = snd (snd (calls ! i))
               \<and> jl_uri (arr ! i) =
                   (if or_empty (fst (calls ! i)) = [] then None
                    else if outcome (snd (malloc h)) (copies_before ?uris i)
                    then fst (calls ! i) else None))"
      by blast
  next
    assume "calls \<noteq> [] \<and> \<not> fst (malloc h)"
    with r resp show "janus_oracle_references_at False (Some c) uri line character incl
        (Some lp) (Some np) h = (3, Some None, Some 0, snd (malloc h))"
      by (simp add: store_def)
  qed
qed

theorem references_at_entries_in_stream_order_witness:
  "janus_oracle_references_at False (Some sample_client) (Some ''a.jan'') 1 0 True
       (Some None) (Some 7) [False]
     = (0, Some None, Some 0, [False])
   \<and> (\<exists>arr.
        janus_oracle_references_at False (Some sample_client) (Some ''a.jan'') 1 1 True
            (Some None) (Some 7) [True, True, False]
          = (0, Some (Some arr), Some 3, [])
        \<and> length arr = 3
        \<and> jl_line (arr ! 0) = 1 \<and> jl_line (arr ! 1) = 30 \<and> jl_line (arr ! 2) = 20
        \<and> jl_uri (arr ! 0) = Some ''decl.jan'' \<and> jl_uri (arr ! 1) = None
        \<and> jl_uri (arr ! 2) = None)
   \<and> (\<exists>arr.
        janus_oracle_references_at False (Some sample_client) (Some ''a.jan'') 1 1 True
            (Some None) (Some 7) [True]
          = (0, Some (Some arr), Some 3, [])
        \<and> jl_uri (arr ! 0) = Some ''decl.jan'' \<and> jl_uri (arr ! 1) = Some ''a.jan''
        \<and> jl_uri (arr ! 2) = None)"
proof -
  have v: "stub sample_client = Some (served_by sample_server 0)"
    by (simp add: sample_client_def)
  have hd: "on_references_at sample_server = Some sample_references_at"
    by (simp add: sample_server_def)
  have s2: "sample_references_at (or_empty (Some ''a.jan'')) 1 0 True (user sample_server) 0
      = (0, [], 1)"
    by (simp add: sample_references_at_def or_empty_def)
  have a2: "ServiceImpl_ReferencesAt sample_server
       \<lparr>rr_uri = or_empty (Some ''a.jan''), rr_line = 1, rr_character = 0,
         rr_include_declaration = True\<rparr> new_ReferencesAtResponse 0
      = (Status_OK, \<lparr>locations = []\<rparr>, 1)"
    by (simp add: sample_defs sink_to_response_def)
  have d2: "Stub_ReferencesAt (served_by sample_server 0) (rpc_timeout_ms sample_client)
       \<lparr>rr_uri = or_empty (Some ''a.jan''), rr_line = 1, rr_character = 0,
         rr_include_declaration = True\<rparr>
      = (Status_OK, \<lparr>locations = []\<rparr>)"
    using a2 by (simp add: served_by_def)
  have b2: "length ([] :: sink_call list) < 2 ^ 31" by simp
  have r2: "janus_oracle_references_at False (Some sample_client) (Some ''a.jan'') 1 0 True
       (Some None) (Some 7) [False] = (0, Some None, Some 0, [False])"
    using references_at_entries_in_stream_order
            [where c = sample_client and st = "served_by sample_server 0"
               and owner = sample_server and f = sample_references_at
               and uri = "Some ''a.jan''" and line = 1 and character = 0 and incl = True
               and w = 0 and calls = "[]" and wa = 1 and status = Status_OK
               and resp = "\<lparr>locations = []\<rparr>" and h = "[False]"
               and lp = None and np = 7,
             OF v hd s2 a2 d2 b2, THEN conjunct1]
    by simp
  let ?calls = "[(Some ''decl.jan'', 1, 2), (Some ''a.jan'', 30, 4), (None, 20, 8)]
                  :: sink_call list"
  let ?uris = "map (\<lambda>call. or_empty (fst call)) ?calls"
  have s1: "sample_references_at (or_empty (Some ''a.jan'')) 1 1 True (user sample_server) 0
      = (0, ?calls, 1)"
    by (simp add: sample_references_at_def or_empty_def)
  have a1: "ServiceImpl_ReferencesAt sample_server
       \<lparr>rr_uri = or_empty (Some ''a.jan''), rr_line = 1, rr_character = 1,
         rr_include_declaration = True\<rparr> new_ReferencesAtResponse 0
      = (Status_OK, \<lparr>locations = map location_of_call ?calls\<rparr>, 1)"
    by (simp add: sample_defs sink_to_response_def location_of_call_def)
  have d1: "Stub_ReferencesAt (served_by sample_server 0) (rpc_timeout_ms sample_client)
       \<lparr>rr_uri = or_empty (Some ''a.jan''), rr_line = 1, rr_character = 1,
         rr_include_declaration = True\<rparr>
      = (Status_OK, \<lparr>locations = map location_of_call ?calls\<rparr>)"
    using a1 by (simp add: served_by_def)
  have b1: "length ?calls < 2 ^ 31" by simp
  have cb: "copies_before ?uris 0 = 0" "copies_before ?uris 1 = 1"
    "copies_before ?uris 2 = 2" "copies_before ?uris (length ?calls) = 2"
    by (simp_all add: copies_before_def or_empty_def numeral_2_eq_2)
  note t = references_at_entries_in_stream_order
         [where c = sample_client and st = "served_by sample_server 0"
            and owner = sample_server and f = sample_references_at
            and uri = "Some ''a.jan''" and line = 1 and character = 1 and incl = True
            and w = 0 and calls = ?calls and wa = 1 and status = Status_OK
            and resp = "\<lparr>locations = map location_of_call ?calls\<rparr>"
            and lp = None and np = 7,
          OF v hd s1 a1 d1 b1, THEN conjunct2, THEN conjunct1, rule_format]
  have m1: "?calls \<noteq> [] \<and> fst (malloc [True, True, False])" by simp
  from t [where h = "[True, True, False]", OF m1]
  obtain arr where
    r: "janus_oracle_references_at False (Some sample_client) (Some ''a.jan'') 1 1 True
            (Some None) (Some 7) [True, True, False]
          = (0, Some (Some arr), Some (of_nat (length ?calls)),
             drop (copies_before ?uris (length ?calls)) (snd (malloc [True, True, False])))"
    and l: "length arr = length ?calls"
    and e: "\<forall>i<length ?calls.
               jl_line (arr ! i) = fst (snd (?calls ! i))
               \<and> jl_character (arr ! i) = snd (snd (?calls ! i))
               \<and> jl_uri (arr ! i) =
                   (if or_empty (fst (?calls ! i)) = [] then None
                    else if outcome (snd (malloc [True, True, False]))
                              (copies_before ?uris i)
                    then fst (?calls ! i) else None)"
    by blast
  from l have l3: "length arr = 3" by simp
  from e have e0: "jl_line (arr ! 0) = 1 \<and> jl_uri (arr ! 0) = Some ''decl.jan''"
    using cb(1) by (simp add: or_empty_def outcome_def)
  from e have "1 < length ?calls \<longrightarrow> jl_line (arr ! 1) = fst (snd (?calls ! 1))
               \<and> jl_uri (arr ! 1) =
                   (if or_empty (fst (?calls ! 1)) = [] then None
                    else if outcome (snd (malloc [True, True, False]))
                              (copies_before ?uris 1)
                    then fst (?calls ! 1) else None)"
    by blast
  then have e1: "jl_line (arr ! 1) = 30 \<and> jl_uri (arr ! 1) = None"
    using cb(2) by (simp add: or_empty_def outcome_def)
  from e have "2 < length ?calls \<longrightarrow> jl_line (arr ! 2) = fst (snd (?calls ! 2))
               \<and> jl_uri (arr ! 2) =
                   (if or_empty (fst (?calls ! 2)) = [] then None
                    else if outcome (snd (malloc [True, True, False]))
                              (copies_before ?uris 2)
                    then fst (?calls ! 2) else None)"
    by blast
  then have e2: "jl_line (arr ! 2) = 20 \<and> jl_uri (arr ! 2) = None"
    by (simp add: or_empty_def)
  from r cb(4) have r': "janus_oracle_references_at False (Some sample_client)
        (Some ''a.jan'') 1 1 True (Some None) (Some 7) [True, True, False]
          = (0, Some (Some arr), Some 3, [])"
    by simp
  have A: "\<exists>arr.
        janus_oracle_references_at False (Some sample_client) (Some ''a.jan'') 1 1 True
            (Some None) (Some 7) [True, True, False]
          = (0, Some (Some arr), Some 3, [])
        \<and> length arr = 3
        \<and> jl_line (arr ! 0) = 1 \<and> jl_line (arr ! 1) = 30 \<and> jl_line (arr ! 2) = 20
        \<and> jl_uri (arr ! 0) = Some ''decl.jan'' \<and> jl_uri (arr ! 1) = None
        \<and> jl_uri (arr ! 2) = None"
    using r' l3 e0 e1 e2 by blast
  have m2: "?calls \<noteq> [] \<and> fst (malloc [True])" by simp
  from t [where h = "[True]", OF m2]
  obtain brr where
    rb: "janus_oracle_references_at False (Some sample_client) (Some ''a.jan'') 1 1 True
            (Some None) (Some 7) [True]
          = (0, Some (Some brr), Some (of_nat (length ?calls)),
             drop (copies_before ?uris (length ?calls)) (snd (malloc [True])))"
    and eb: "\<forall>i<length ?calls.
               jl_line (brr ! i) = fst (snd (?calls ! i))
               \<and> jl_character (brr ! i) = snd (snd (?calls ! i))
               \<and> jl_uri (brr ! i) =
                   (if or_empty (fst (?calls ! i)) = [] then None
                    else if outcome (snd (malloc [True])) (copies_before ?uris i)
                    then fst (?calls ! i) else None)"
    by blast
  from eb have f0: "jl_uri (brr ! 0) = Some ''decl.jan''"
    by (simp add: or_empty_def outcome_def)
  from eb have "1 < length ?calls \<longrightarrow> jl_uri (brr ! 1) =
                   (if or_empty (fst (?calls ! 1)) = [] then None
                    else if outcome (snd (malloc [True])) (copies_before ?uris 1)
                    then fst (?calls ! 1) else None)"
    by blast
  then have f1: "jl_uri (brr ! 1) = Some ''a.jan''"
    by (simp add: or_empty_def outcome_def)
  from eb have "2 < length ?calls \<longrightarrow> jl_uri (brr ! 2) =
                   (if or_empty (fst (?calls ! 2)) = [] then None
                    else if outcome (snd (malloc [True])) (copies_before ?uris 2)
                    then fst (?calls ! 2) else None)"
    by blast
  then have f2: "jl_uri (brr ! 2) = None"
    by (simp add: or_empty_def)
  from rb have rb': "janus_oracle_references_at False (Some sample_client)
        (Some ''a.jan'') 1 1 True (Some None) (Some 7) [True]
          = (0, Some (Some brr), Some 3, [])"
    by simp
  have B: "\<exists>arr.
        janus_oracle_references_at False (Some sample_client) (Some ''a.jan'') 1 1 True
            (Some None) (Some 7) [True]
          = (0, Some (Some arr), Some 3, [])
        \<and> jl_uri (arr ! 0) = Some ''decl.jan'' \<and> jl_uri (arr ! 1) = Some ''a.jan''
        \<and> jl_uri (arr ! 2) = None"
    using rb' f0 f1 f2 by blast
  from r2 A B show ?thesis by blast
qed


text \<open>
  C5. On a valid connected handle, when the call is answered with status OK and an empty
  markdown string, \<open>hover_at\<close> returns 0 and sets \<open>*markdown_out\<close> to null (when the
  caller passed a cell at all): no hover is a success with an absent value, never a
  failure code. No allocation is tried, so the heap is as before.
\<close>

theorem hover_at_absent_is_success:
  assumes "stub c = Some st"
    and "Stub_HoverAt st (rpc_timeout_ms c)
           \<lparr>pr_uri = or_empty uri, pr_line = line, pr_character = character\<rparr> = (status, resp)"
    and "ok status"
    and "hr_markdown resp = []"
  shows "janus_oracle_hover_at False (Some c) uri line character markdown_out h
           = (0, store markdown_out None, h)"
  using assms
  by (simp add: janus_oracle_hover_at_def dup_cstr_def store_def split: option.splits)

theorem hover_at_absent_is_success_witness:
  "janus_oracle_hover_at False (Some sample_client) (Some ''file:///a.jan'') 1 0
       (Some (Some ''stale'')) [False]
     = (0, Some None, [False])"
proof -
  have a: "stub sample_client = Some (served_by sample_server 0)"
    by (simp add: sample_client_def)
  have b: "Stub_HoverAt (served_by sample_server 0) (rpc_timeout_ms sample_client)
             \<lparr>pr_uri = or_empty (Some ''file:///a.jan''), pr_line = 1, pr_character = 0\<rparr>
           = (Status_OK, new_HoverAtResponse)"
    by (simp add: sample_defs)
  have c: "ok Status_OK" by (simp add: ok_def Status_OK_def)
  have d: "hr_markdown new_HoverAtResponse = []" by (simp add: new_HoverAtResponse_def)
  from hover_at_absent_is_success [OF a b c d, of "Some (Some ''stale'')" "[False]"]
  show ?thesis by (simp add: store_def)
qed

text \<open>
  C6. For a non-null client handle and any two arguments, \<open>set_timeouts\<close> returns 0 and
  writes exactly the timeout fields whose argument is not zero; a zero argument leaves
  its field as it was. In particular \<open>set_timeouts(h, 0, 500)\<close> keeps the connect timeout
  and sets the RPC timeout to 500. Nothing else in the handle changes.
\<close>

theorem set_timeouts_nonzero_only:
  "janus_oracle_client_set_timeouts (Some c) a b =
     (0, Some (c\<lparr>connect_timeout_ms := (if a = 0 then connect_timeout_ms c else a),
                 rpc_timeout_ms := (if b = 0 then rpc_timeout_ms c else b)\<rparr>))
   \<and> janus_oracle_client_set_timeouts (Some c) 0 500 = (0, Some (c\<lparr>rpc_timeout_ms := 500\<rparr>))"
  by (simp add: janus_oracle_client_set_timeouts_def Let_def)

theorem set_timeouts_nonzero_only_witness:
  "janus_oracle_client_set_timeouts (Some sample_client) 0 500
     = (0, Some (sample_client\<lparr>rpc_timeout_ms := 500\<rparr>))
   \<and> connect_timeout_ms (sample_client\<lparr>rpc_timeout_ms := 500\<rparr>) = 1500"
  using set_timeouts_nonzero_only [of sample_client 0 500]
  by (simp add: sample_client_def)

text \<open>
  C7, as stated: with a reply of three locations and \<open>malloc\<close> giving null for the output
  array, \<open>references_at\<close> returns 3, not 4; and an exception raised while the call is
  being built makes it return 4, not 3.
\<close>

theorem references_at_marshal_code_counterexample:
  "fst (janus_oracle_references_at False (Some sample_client) (Some ''a.jan'') 1 1 True
          None None [False]) = 3
   \<and> fst (janus_oracle_references_at True (Some sample_client) (Some ''a.jan'') 1 1 True
          None None []) = 4"
proof -
  have v: "stub sample_client = Some (served_by sample_server 0)"
    by (simp add: sample_client_def)
  have d: "Stub_ReferencesAt (served_by sample_server 0) (rpc_timeout_ms sample_client)
       \<lparr>rr_uri = or_empty (Some ''a.jan''), rr_line = 1, rr_character = 1,
         rr_include_declaration = True\<rparr>
     = (Status_OK,
        \<lparr>locations = [\<lparr>loc_uri = ''decl.jan'', loc_line = 1, loc_character = 2\<rparr>,
                       \<lparr>loc_uri = ''a.jan'', loc_line = 30, loc_character = 4\<rparr>,
                       \<lparr>loc_uri = [], loc_line = 20, loc_character = 8\<rparr>]\<rparr>)"
    using sample_references_reply [of "rpc_timeout_ms sample_client" True]
    by (simp add: or_empty_def)
  have k: "ok Status_OK" by (simp add: ok_def Status_OK_def)
  from references_at_reply [OF v d k, of None None "[False]"]
  have 1: "fst (janus_oracle_references_at False (Some sample_client) (Some ''a.jan'') 1 1 True
          None None [False]) = 3"
    by simp
  have 2: "fst (janus_oracle_references_at True (Some sample_client) (Some ''a.jan'') 1 1 True
          None None []) = 4"
    by (simp add: janus_oracle_references_at_def sample_client_def)
  from 1 2 show ?thesis by simp
qed

text \<open>
  C7, amended. For \<open>references_at\<close> on a valid connected handle whose remote call
  succeeds with at least one location: when the output array cannot be allocated the
  status is 3 and the outputs stay null and 0; when it can, the status is 0 whatever
  happens to the later allocations, and an entry whose uri is not empty gets a null uri
  exactly when the allocation of its copy fails (nothing is reported for it). Status 4
  is what \<open>references_at\<close> returns for a caught C++ exception, one raised during call
  construction included; the other three call operations return 3 for it.
\<close>

theorem references_at_local_failure_codes:
  assumes "stub c = Some st"
    and "Stub_ReferencesAt st (rpc_timeout_ms c)
           \<lparr>rr_uri = or_empty uri, rr_line = line, rr_character = character,
             rr_include_declaration = incl\<rparr> = (status, resp)"
    and "ok status"
    and "locations resp \<noteq> []"
    and "length (locations resp) < 2 ^ 31"
  shows
  "(\<not> fst (malloc h) \<longrightarrow>
      janus_oracle_references_at False (Some c) uri line character incl
        locations_out count_out h
        = (3, store locations_out None, store count_out 0, snd (malloc h)))
   \<and> (fst (malloc h) \<longrightarrow>
      fst (janus_oracle_references_at False (Some c) uri line character incl
             locations_out count_out h) = 0)
   \<and> (fst (malloc h) \<longrightarrow>
      (\<exists>arr.
         janus_oracle_references_at False (Some c) uri line character incl
            locations_out count_out h
           = (0, store locations_out (Some arr),
              store count_out (of_nat (length (locations resp))),
              drop (copies_before (map loc_uri (locations resp)) (length (locations resp)))
                (snd (malloc h)))
         \<and> length arr = length (locations resp)
         \<and> (\<forall>i<length (locations resp).
               jl_uri (arr ! i) =
                 (if loc_uri (locations resp ! i) = [] then None
                  else if outcome (snd (malloc h))
                            (copies_before (map loc_uri (locations resp)) i)
                  then Some (loc_uri (locations resp ! i)) else None))))
   \<and> fst (janus_oracle_references_at True (Some c) uri line character incl
             locations_out count_out h) = 4
   \<and> fst (janus_oracle_doc_update True (Some c) uri content ok_out) = 3
   \<and> fst (janus_oracle_hover_at True (Some c) uri line character markdown_out h) = 3
   \<and> fst (janus_oracle_definition_at True (Some c) uri line character
             found_out uri_out def_line_out def_character_out h) = 3"
proof -
  note r = references_at_reply [OF assms(1,2,3,5), of locations_out count_out h]
  from r assms(4) have 1: "\<not> fst (malloc h) \<longrightarrow>
      janus_oracle_references_at False (Some c) uri line character incl
        locations_out count_out h
        = (3, store locations_out None, store count_out 0, snd (malloc h))"
    by simp
  from r assms(4) have 2: "fst (malloc h) \<longrightarrow>
      fst (janus_oracle_references_at False (Some c) uri line character incl
             locations_out count_out h) = 0"
    by simp
  have 7: "\<exists>arr.
         janus_oracle_references_at False (Some c) uri line character incl
            locations_out count_out h
           = (0, store locations_out (Some arr),
              store count_out (of_nat (length (locations resp))),
              drop (copies_before (map loc_uri (locations resp)) (length (locations resp)))
                (snd (malloc h)))
         \<and> length arr = length (locations resp)
         \<and> (\<forall>i<length (locations resp).
               jl_uri (arr ! i) =
                 (if loc_uri (locations resp ! i) = [] then None
                  else if outcome (snd (malloc h))
                            (copies_before (map loc_uri (locations resp)) i)
                  then Some (loc_uri (locations resp ! i)) else None))"
    if m: "fst (malloc h)"
    using references_at_array [OF assms(1,2,3,5,4) m, of locations_out count_out]
    by blast
  from assms(1) have 3: "fst (janus_oracle_references_at True (Some c) uri line character incl
             locations_out count_out h) = 4"
    by (simp add: janus_oracle_references_at_def)
  from assms(1) have 4: "fst (janus_oracle_doc_update True (Some c) uri content ok_out) = 3"
    by (simp add: janus_oracle_doc_update_def)
  from assms(1) have 5:
    "fst (janus_oracle_hover_at True (Some c) uri line character markdown_out h) = 3"
    by (simp add: janus_oracle_hover_at_def)
  from assms(1) have 6: "fst (janus_oracle_definition_at True (Some c) uri line character
             found_out uri_out def_line_out def_character_out h) = 3"
    by (simp add: janus_oracle_definition_at_def)
  from 1 2 3 4 5 6 7 show ?thesis by blast
qed

theorem references_at_local_failure_codes_witness:
  "janus_oracle_references_at False (Some sample_client) (Some ''a.jan'') 1 1 True
       (Some None) (Some 7) [False, True]
     = (3, Some None, Some 0, [True])
   \<and> fst (janus_oracle_references_at False (Some sample_client) (Some ''a.jan'') 1 1 True
            (Some None) (Some 7) [True, False, False]) = 0
   \<and> (\<exists>arr.
        janus_oracle_references_at False (Some sample_client) (Some ''a.jan'') 1 1 True
            (Some None) (Some 7) [True, False, True]
          = (0, Some (Some arr), Some 3, [])
        \<and> length arr = 3
        \<and> jl_uri (arr ! 0) = None \<and> jl_uri (arr ! 1) = Some ''a.jan''
        \<and> jl_uri (arr ! 2) = None)
   \<and> fst (janus_oracle_references_at True (Some sample_client) (Some ''a.jan'') 1 1 True
            (Some None) (Some 7) []) = 4
   \<and> fst (janus_oracle_hover_at True (Some sample_client) (Some ''a.jan'') 1 1
            (Some None) []) = 3"
proof -
  let ?locs = "[\<lparr>loc_uri = ''decl.jan'', loc_line = 1, loc_character = 2\<rparr>,
                \<lparr>loc_uri = ''a.jan'', loc_line = 30, loc_character = 4\<rparr>,
                \<lparr>loc_uri = [], loc_line = 20, loc_character = 8\<rparr>]"
  let ?resp = "\<lparr>locations = ?locs\<rparr>"
  have v: "stub sample_client = Some (served_by sample_server 0)"
    by (simp add: sample_client_def)
  have d: "Stub_ReferencesAt (served_by sample_server 0) (rpc_timeout_ms sample_client)
       \<lparr>rr_uri = or_empty (Some ''a.jan''), rr_line = 1, rr_character = 1,
         rr_include_declaration = True\<rparr>
     = (Status_OK, ?resp)"
    using sample_references_reply [of "rpc_timeout_ms sample_client" True]
    by (simp add: or_empty_def)
  have k: "ok Status_OK" by (simp add: ok_def Status_OK_def)
  have n: "locations ?resp \<noteq> []" by simp
  have b: "length (locations ?resp) < 2 ^ 31" by simp
  note t = references_at_local_failure_codes
      [where c = sample_client and st = "served_by sample_server 0"
         and uri = "Some ''a.jan''" and line = 1 and character = 1 and incl = True
         and status = Status_OK and resp = ?resp
         and locations_out = "Some None" and count_out = "Some 7"
         and markdown_out = "Some None", OF v d k n b]
  from t [where h = "[False, True]"]
  have 1: "janus_oracle_references_at False (Some sample_client) (Some ''a.jan'') 1 1 True
       (Some None) (Some 7) [False, True] = (3, Some None, Some 0, [True])"
    by (simp add: store_def)
  from t [where h = "[True, False, False]"]
  have 2: "fst (janus_oracle_references_at False (Some sample_client) (Some ''a.jan'') 1 1 True
            (Some None) (Some 7) [True, False, False]) = 0"
    by simp
  from t [where h = "[]"]
  have 3: "fst (janus_oracle_references_at True (Some sample_client) (Some ''a.jan'') 1 1 True
            (Some None) (Some 7) []) = 4"
    and 4: "fst (janus_oracle_hover_at True (Some sample_client) (Some ''a.jan'') 1 1
            (Some None) []) = 3"
    by simp_all
  have cb: "copies_before (map loc_uri ?locs) 0 = 0" "copies_before (map loc_uri ?locs) 1 = 1"
    "copies_before (map loc_uri ?locs) (length ?locs) = 2"
    by (simp_all add: copies_before_def)
  have m: "fst (malloc [True, False, True])" by simp
  from t [where h = "[True, False, True]", THEN conjunct2, THEN conjunct2, THEN conjunct1,
          rule_format, OF m]
  obtain arr where
    r: "janus_oracle_references_at False (Some sample_client) (Some ''a.jan'') 1 1 True
            (Some None) (Some 7) [True, False, True]
          = (0, store (Some None) (Some arr),
             store (Some 7) (of_nat (length (locations ?resp))),
             drop (copies_before (map loc_uri (locations ?resp)) (length (locations ?resp)))
               (snd (malloc [True, False, True])))"
    and l: "length arr = length (locations ?resp)"
    and e: "\<forall>i<length (locations ?resp).
               jl_uri (arr ! i) =
                 (if loc_uri (locations ?resp ! i) = [] then None
                  else if outcome (snd (malloc [True, False, True]))
                            (copies_before (map loc_uri (locations ?resp)) i)
                  then Some (loc_uri (locations ?resp ! i)) else None)"
    by blast
  from l have l3: "length arr = 3" by simp
  from e have "0 < length ?locs \<longrightarrow> jl_uri (arr ! 0) =
                 (if loc_uri (?locs ! 0) = [] then None
                  else if outcome (snd (malloc [True, False, True]))
                            (copies_before (map loc_uri ?locs) 0)
                  then Some (loc_uri (?locs ! 0)) else None)"
    by simp
  then have e0: "jl_uri (arr ! 0) = None"
    using cb(1) by (simp add: outcome_def)
  from e have "1 < length ?locs \<longrightarrow> jl_uri (arr ! 1) =
                 (if loc_uri (?locs ! 1) = [] then None
                  else if outcome (snd (malloc [True, False, True]))
                            (copies_before (map loc_uri ?locs) 1)
                  then Some (loc_uri (?locs ! 1)) else None)"
    by simp
  then have e1: "jl_uri (arr ! 1) = Some ''a.jan''"
    using cb(2) by (simp add: outcome_def)
  from e have "2 < length ?locs \<longrightarrow> jl_uri (arr ! 2) =
                 (if loc_uri (?locs ! 2) = [] then None
                  else if outcome (snd (malloc [True, False, True]))
                            (copies_before (map loc_uri ?locs) 2)
                  then Some (loc_uri (?locs ! 2)) else None)"
    by simp
  then have e2: "jl_uri (arr ! 2) = None" by simp
  from r cb(3) have r': "janus_oracle_references_at False (Some sample_client)
        (Some ''a.jan'') 1 1 True (Some None) (Some 7) [True, False, True]
          = (0, Some (Some arr), Some 3, [])"
    by (simp add: store_def)
  have 5: "\<exists>arr.
        janus_oracle_references_at False (Some sample_client) (Some ''a.jan'') 1 1 True
            (Some None) (Some 7) [True, False, True]
          = (0, Some (Some arr), Some 3, [])
        \<and> length arr = 3
        \<and> jl_uri (arr ! 0) = None \<and> jl_uri (arr ! 1) = Some ''a.jan''
        \<and> jl_uri (arr ! 2) = None"
    using r' l3 e0 e1 e2 by blast
  from 1 2 3 4 5 show ?thesis by blast
qed

text \<open>
  C8. \<open>server_stop\<close> returns a non-zero code for the null handle only. On a non-null
  handle it returns 0; it calls \<open>Shutdown\<close> on the listening endpoint when there is one
  and clears it, and does nothing when there is none. Stopping again what a stop has
  left gives the same code, the same handle and no further \<open>Shutdown\<close>. \<open>server_destroy\<close>
  shuts down exactly what one stop would.
\<close>

theorem server_stop_idempotent:
  "(fst (janus_oracle_server_stop srv log) = 0) = (srv \<noteq> None)
   \<and> janus_oracle_server_stop None log = (1, None, log)
   \<and> janus_oracle_server_stop (Some s) log
       = (0, Some (s\<lparr>server := None\<rparr>),
          log @ (case server s of None \<Rightarrow> [] | Some g \<Rightarrow> [g]))
   \<and> (case janus_oracle_server_stop srv log of
         (rc, srv', log') \<Rightarrow> janus_oracle_server_stop srv' log' = (rc, srv', log'))
   \<and> janus_oracle_server_destroy srv log = snd (snd (janus_oracle_server_stop srv log))"
  by (auto simp: janus_oracle_server_stop_def janus_oracle_server_destroy_def
           split: option.splits)

theorem server_stop_idempotent_witness:
  "janus_oracle_server_start Running (Some sample_server)
     = (0, Some (sample_server\<lparr>server := Some (Server ''127.0.0.1:50051'')\<rparr>))
   \<and> janus_oracle_server_stop
         (Some (sample_server\<lparr>server := Some (Server ''127.0.0.1:50051'')\<rparr>)) []
     = (0, Some (sample_server\<lparr>server := None\<rparr>), [Server ''127.0.0.1:50051''])
   \<and> janus_oracle_server_stop (Some (sample_server\<lparr>server := None\<rparr>))
         [Server ''127.0.0.1:50051'']
     = (0, Some (sample_server\<lparr>server := None\<rparr>), [Server ''127.0.0.1:50051''])"
  using server_stop_idempotent
          [of "Some (sample_server\<lparr>server := Some (Server ''127.0.0.1:50051'')\<rparr>)" "[]"
              "sample_server\<lparr>server := Some (Server ''127.0.0.1:50051'')\<rparr>"]
  by (simp add: janus_oracle_server_start_def janus_oracle_server_stop_def
        sample_server_def to_string.simps)

text \<open>
  C9. A null string argument is never a reason for code 1. \<open>connect\<close> and
  \<open>server_create\<close> behave on a null host exactly as on \<open>"127.0.0.1"\<close>: the channel's
  target and the server's host are built from it, and the handle they return is the one
  written out below. Each call operation behaves on a null uri or content exactly as on
  the empty string, for every handle and every stub. On a valid handle no call
  operation returns 1, whatever its string arguments, null or not. With a null string
  the request that reaches the stub carries the empty string in its place: the status
  code (for \<open>doc_update\<close> the whole result) is the one that the stub's answer to that
  request gives.
\<close>

theorem null_strings_are_defaulted:
  "janus_oracle_client_connect env None p
     = janus_oracle_client_connect env (Some ''127.0.0.1'') p
   \<and> map_option channel (janus_oracle_client_connect env None p)
       = (if janus_oracle_client_connect env None p = None then None
          else Some (Channel (''127.0.0.1:'' @ to_string (unat p))))
   \<and> (janus_oracle_server_create nf th None p :: 'w JanusOracleServer option)
       = janus_oracle_server_create nf th (Some ''127.0.0.1'') p
   \<and> map_option host (janus_oracle_server_create False False None p
                         :: 'w JanusOracleServer option) = Some ''127.0.0.1''
   \<and> janus_oracle_doc_update thr cl None content ok_out
       = janus_oracle_doc_update thr cl (Some []) content ok_out
   \<and> janus_oracle_doc_update thr cl uri None ok_out
       = janus_oracle_doc_update thr cl uri (Some []) ok_out
   \<and> janus_oracle_hover_at thr cl None line character markdown_out h
       = janus_oracle_hover_at thr cl (Some []) line character markdown_out h
   \<and> janus_oracle_definition_at thr cl None line character
         found_out uri_out def_line_out def_character_out h
       = janus_oracle_definition_at thr cl (Some []) line character
           found_out uri_out def_line_out def_character_out h
   \<and> janus_oracle_references_at thr cl None line character incl locations_out count_out h
       = janus_oracle_references_at thr cl (Some []) line character incl
           locations_out count_out h
   \<and> (stub c = Some st \<longrightarrow>
        fst (janus_oracle_doc_update thr (Some c) uri content ok_out) \<noteq> 1
        \<and> fst (janus_oracle_hover_at thr (Some c) uri line character markdown_out h) \<noteq> 1
        \<and> fst (janus_oracle_definition_at thr (Some c) uri line character
                  found_out uri_out def_line_out def_character_out h) \<noteq> 1
        \<and> fst (janus_oracle_references_at thr (Some c) uri line character incl
                  locations_out count_out h) \<noteq> 1)
   \<and> janus_oracle_client_connect env None p
       = (if ce_throws env \<or> ce_new_fails env
             \<or> \<not> ce_WaitForConnected env
                   (Channel (''127.0.0.1:'' @ to_string (unat p))) 1500
          then None
          else Some \<lparr>channel = Channel (''127.0.0.1:'' @ to_string (unat p)),
                     stub = Some (ce_NewStub env
                                    (Channel (''127.0.0.1:'' @ to_string (unat p)))),
                     connect_timeout_ms = 1500, rpc_timeout_ms = 1000\<rparr>)
   \<and> (janus_oracle_server_create nf th None p :: 'w JanusOracleServer option)
       = (if nf \<or> th then None
          else Some \<lparr>host = ''127.0.0.1'', port = p, server = None,
                     on_doc_update = None, on_hover_at = None,
                     on_definition_at = None, on_references_at = None,
                     user = None, service = True\<rparr>)
   \<and> (stub c = Some st \<longrightarrow>
        janus_oracle_doc_update False (Some c) None content ok_out
          = (case Stub_DocUpdate st (rpc_timeout_ms c)
                    \<lparr>du_uri = [], du_content = or_empty content\<rparr> of
               (status, resp) \<Rightarrow>
                 if ok status then (0, store ok_out (du_ok resp))
                 else (if error_code status = DEADLINE_EXCEEDED then 5 else 2, ok_out))
        \<and> janus_oracle_doc_update False (Some c) uri None ok_out
          = (case Stub_DocUpdate st (rpc_timeout_ms c)
                    \<lparr>du_uri = or_empty uri, du_content = []\<rparr> of
               (status, resp) \<Rightarrow>
                 if ok status then (0, store ok_out (du_ok resp))
                 else (if error_code status = DEADLINE_EXCEEDED then 5 else 2, ok_out))
        \<and> fst (janus_oracle_hover_at False (Some c) None line character markdown_out h)
          = (case Stub_HoverAt st (rpc_timeout_ms c)
                    \<lparr>pr_uri = [], pr_line = line, pr_character = character\<rparr> of
               (status, resp) \<Rightarrow>
                 if ok status then 0
                 else if error_code status = DEADLINE_EXCEEDED then 5 else 2)
        \<and> fst (janus_oracle_definition_at False (Some c) None line character
                  found_out uri_out def_line_out def_character_out h)
          = (case Stub_DefinitionAt st (rpc_timeout_ms c)
                    \<lparr>pr_uri = [], pr_line = line, pr_character = character\<rparr> of
               (status, resp) \<Rightarrow>
                 if ok status then 0
                 else if error_code status = DEADLINE_EXCEEDED then 5 else 2)
        \<and> fst (janus_oracle_references_at False (Some c) None line character incl
                  locations_out count_out h)
          = (case Stub_ReferencesAt st (rpc_timeout_ms c)
                    \<lparr>rr_uri = [], rr_line = line, rr_character = character,
                      rr_include_declaration = incl\<rparr> of
               (status, resp) \<Rightarrow>
                 if ok status
                 then (if (of_nat (length (locations resp)) :: u32) = 0 \<or> fst (malloc h)
                       then 0 else 3)
                 else if error_code status = DEADLINE_EXCEEDED then 5 else 2))"
proof -
  have 1: "janus_oracle_client_connect env None p
     = janus_oracle_client_connect env (Some ''127.0.0.1'') p"
    by (simp add: janus_oracle_client_connect_def)
  have 2: "map_option channel (janus_oracle_client_connect env None p)
       = (if janus_oracle_client_connect env None p = None then None
          else Some (Channel (''127.0.0.1:'' @ to_string (unat p))))"
    by (simp add: janus_oracle_client_connect_def Let_def)
  have 3: "(janus_oracle_server_create nf th None p :: 'w JanusOracleServer option)
       = janus_oracle_server_create nf th (Some ''127.0.0.1'') p"
    by (simp add: janus_oracle_server_create_def)
  have 4: "map_option host (janus_oracle_server_create False False None p
                         :: 'w JanusOracleServer option) = Some ''127.0.0.1''"
    by (simp add: janus_oracle_server_create_def)
  have 5: "janus_oracle_doc_update thr cl None content ok_out
       = janus_oracle_doc_update thr cl (Some []) content ok_out"
    "janus_oracle_doc_update thr cl uri None ok_out
       = janus_oracle_doc_update thr cl uri (Some []) ok_out"
    unfolding janus_oracle_doc_update_def or_empty_None by (rule refl)+
  have 6: "janus_oracle_hover_at thr cl None line character markdown_out h
       = janus_oracle_hover_at thr cl (Some []) line character markdown_out h"
    unfolding janus_oracle_hover_at_def or_empty_None by (rule refl)
  have 7: "janus_oracle_definition_at thr cl None line character
         found_out uri_out def_line_out def_character_out h
       = janus_oracle_definition_at thr cl (Some []) line character
           found_out uri_out def_line_out def_character_out h"
    unfolding janus_oracle_definition_at_def or_empty_None by (rule refl)
  have 8: "janus_oracle_references_at thr cl None line character incl locations_out count_out h
       = janus_oracle_references_at thr cl (Some []) line character incl
           locations_out count_out h"
    unfolding janus_oracle_references_at_def or_empty_None by (rule refl)
  have 9: "fst (janus_oracle_doc_update thr (Some c) uri content ok_out) \<noteq> 1"
    if "stub c = Some st"
    using that by (simp add: janus_oracle_doc_update_def case_prod_unfold Let_def)
  have 10: "fst (janus_oracle_hover_at thr (Some c) uri line character markdown_out h) \<noteq> 1"
    if "stub c = Some st"
    using that
    by (simp add: janus_oracle_hover_at_def case_prod_unfold Let_def split: option.splits)
  have 11: "fst (janus_oracle_definition_at thr (Some c) uri line character
                  found_out uri_out def_line_out def_character_out h) \<noteq> 1"
    if "stub c = Some st"
    using that
    by (simp add: janus_oracle_definition_at_def case_prod_unfold Let_def
          split: option.splits)
  have 12: "fst (janus_oracle_references_at thr (Some c) uri line character incl
                  locations_out count_out h) \<noteq> 1"
    if "stub c = Some st"
    using that
    by (simp add: janus_oracle_references_at_def case_prod_unfold Let_def
          split: option.splits bool.splits)
  have 13: "janus_oracle_client_connect env None p
       = (if ce_throws env \<or> ce_new_fails env
             \<or> \<not> ce_WaitForConnected env
                   (Channel (''127.0.0.1:'' @ to_string (unat p))) 1500
          then None
          else Some \<lparr>channel = Channel (''127.0.0.1:'' @ to_string (unat p)),
                     stub = Some (ce_NewStub env
                                    (Channel (''127.0.0.1:'' @ to_string (unat p)))),
                     connect_timeout_ms = 1500, rpc_timeout_ms = 1000\<rparr>)"
    by (simp add: janus_oracle_client_connect_def Let_def)
  have 14: "(janus_oracle_server_create nf th None p :: 'w JanusOracleServer option)
       = (if nf \<or> th then None
          else Some \<lparr>host = ''127.0.0.1'', port = p, server = None,
                     on_doc_update = None, on_hover_at = None,
                     on_definition_at = None, on_references_at = None,
                     user = None, service = True\<rparr>)"
    by (simp add: janus_oracle_server_create_def)
  have 15: "janus_oracle_doc_update False (Some c) None content ok_out
          = (case Stub_DocUpdate st (rpc_timeout_ms c)
                    \<lparr>du_uri = [], du_content = or_empty content\<rparr> of
               (status, resp) \<Rightarrow>
                 if ok status then (0, store ok_out (du_ok resp))
                 else (if error_code status = DEADLINE_EXCEEDED then 5 else 2, ok_out))"
    "janus_oracle_doc_update False (Some c) uri None ok_out
          = (case Stub_DocUpdate st (rpc_timeout_ms c)
                    \<lparr>du_uri = or_empty uri, du_content = []\<rparr> of
               (status, resp) \<Rightarrow>
                 if ok status then (0, store ok_out (du_ok resp))
                 else (if error_code status = DEADLINE_EXCEEDED then 5 else 2, ok_out))"
    if "stub c = Some st"
    using that
    by (simp_all add: janus_oracle_doc_update_def case_prod_unfold Let_def or_empty_def)
  have 16: "fst (janus_oracle_hover_at False (Some c) None line character markdown_out h)
          = (case Stub_HoverAt st (rpc_timeout_ms c)
                    \<lparr>pr_uri = [], pr_line = line, pr_character = character\<rparr> of
               (status, resp) \<Rightarrow>
                 if ok status then 0
                 else if error_code status = DEADLINE_EXCEEDED then 5 else 2)"
    if "stub c = Some st"
    using that
    by (simp add: janus_oracle_hover_at_def case_prod_unfold Let_def or_empty_def
          store_def split: option.splits)
  have 17: "fst (janus_oracle_definition_at False (Some c) None line character
                  found_out uri_out def_line_out def_character_out h)
          = (case Stub_DefinitionAt st (rpc_timeout_ms c)
                    \<lparr>pr_uri = [], pr_line = line, pr_character = character\<rparr> of
               (status, resp) \<Rightarrow>
                 if ok status then 0
                 else if error_code status = DEADLINE_EXCEEDED then 5 else 2)"
    if "stub c = Some st"
    using that
    by (simp add: janus_oracle_definition_at_def case_prod_unfold Let_def or_empty_def
          store_def split: option.splits)
  have 18: "fst (janus_oracle_references_at False (Some c) None line character incl
                  locations_out count_out h)
          = (case Stub_ReferencesAt st (rpc_timeout_ms c)
                    \<lparr>rr_uri = [], rr_line = line, rr_character = character,
                      rr_include_declaration = incl\<rparr> of
               (status, resp) \<Rightarrow>
                 if ok status
                 then (if (of_nat (length (locations resp)) :: u32) = 0 \<or> fst (malloc h)
                       then 0 else 3)
                 else if error_code status = DEADLINE_EXCEEDED then 5 else 2)"
    if "stub c = Some st"
    using that
    by (simp add: janus_oracle_references_at_def case_prod_unfold Let_def or_empty_def
          split: option.splits bool.splits)
  from 1 2 3 4 5 6 7 8 have A: "janus_oracle_client_connect env None p
     = janus_oracle_client_connect env (Some ''127.0.0.1'') p
   \<and> map_option channel (janus_oracle_client_connect env None p)
       = (if janus_oracle_client_connect env None p = None then None
          else Some (Channel (''127.0.0.1:'' @ to_string (unat p))))
   \<and> (janus_oracle_server_create nf th None p :: 'w JanusOracleServer option)
       = janus_oracle_server_create nf th (Some ''127.0.0.1'') p
   \<and> map_option host (janus_oracle_server_create False False None p
                         :: 'w JanusOracleServer option) = Some ''127.0.0.1''
   \<and> janus_oracle_doc_update thr cl None content ok_out
       = janus_oracle_doc_update thr cl (Some []) content ok_out
   \<and> janus_oracle_doc_update thr cl uri None ok_out
       = janus_oracle_doc_update thr cl uri (Some []) ok_out
   \<and> janus_oracle_hover_at thr cl None line character markdown_out h
       = janus_oracle_hover_at thr cl (Some []) line character markdown_out h
   \<and> janus_oracle_definition_at thr cl None line character
         found_out uri_out def_line_out def_character_out h
       = janus_oracle_definition_at thr cl (Some []) line character
           found_out uri_out def_line_out def_character_out h
   \<and> janus_oracle_references_at thr cl None line character incl locations_out count_out h
       = janus_oracle_references_at thr cl (Some []) line character incl
           locations_out count_out h"
    by (intro conjI)
  from 9 10 11 12 have B: "stub c = Some st \<longrightarrow>
        fst (janus_oracle_doc_update thr (Some c) uri content ok_out) \<noteq> 1
        \<and> fst (janus_oracle_hover_at thr (Some c) uri line character markdown_out h) \<noteq> 1
        \<and> fst (janus_oracle_definition_at thr (Some c) uri line character
                  found_out uri_out def_line_out def_character_out h) \<noteq> 1
        \<and> fst (janus_oracle_references_at thr (Some c) uri line character incl
                  locations_out count_out h) \<noteq> 1"
    by blast
  from 15 16 17 18 have C: "stub c = Some st \<longrightarrow>
        janus_oracle_doc_update False (Some c) None content ok_out
          = (case Stub_DocUpdate st (rpc_timeout_ms c)
                    \<lparr>du_uri = [], du_content = or_empty content\<rparr> of
               (status, resp) \<Rightarrow>
                 if ok status then (0, store ok_out (du_ok resp))
                 else (if error_code status = DEADLINE_EXCEEDED then 5 else 2, ok_out))
        \<and> janus_oracle_doc_update False (Some c) uri None ok_out
          = (case Stub_DocUpdate st (rpc_timeout_ms c)
                    \<lparr>du_uri = or_empty uri, du_content = []\<rparr> of
               (status, resp) \<Rightarrow>
                 if ok status then (0, store ok_out (du_ok resp))
                 else (if error_code status = DEADLINE_EXCEEDED then 5 else 2, ok_out))
        \<and> fst (janus_oracle_hover_at False (Some c) None line character markdown_out h)
          = (case Stub_HoverAt st (rpc_timeout_ms c)
                    \<lparr>pr_uri = [], pr_line = line, pr_character = character\<rparr> of
               (status, resp) \<Rightarrow>
                 if ok status then 0
                 else if error_code status = DEADLINE_EXCEEDED then 5 else 2)
        \<and> fst (janus_oracle_definition_at False (Some c) None line character
                  found_out uri_out def_line_out def_character_out h)
          = (case Stub_DefinitionAt st (rpc_timeout_ms c)
                    \<lparr>pr_uri = [], pr_line = line, pr_character = character\<rparr> of
               (status, resp) \<Rightarrow>
                 if ok status then 0
                 else if error_code status = DEADLINE_EXCEEDED then 5 else 2)
        \<and> fst (janus_oracle_references_at False (Some c) None line character incl
                  locations_out count_out h)
          = (case Stub_ReferencesAt st (rpc_timeout_ms c)
                    \<lparr>rr_uri = [], rr_line = line, rr_character = character,
                      rr_include_declaration = incl\<rparr> of
               (status, resp) \<Rightarrow>
                 if ok status
                 then (if (of_nat (length (locations resp)) :: u32) = 0 \<or> fst (malloc h)
                       then 0 else 3)
                 else if error_code status = DEADLINE_EXCEEDED then 5 else 2)"
    by (intro impI conjI)
  show ?thesis
    using A B 13 14 C
    apply -
    apply (elim conjE)
    apply (intro conjI)
    apply assumption+
    done
qed

theorem null_strings_are_defaulted_witness:
  "map_option channel (janus_oracle_client_connect reachable None 8080)
     = Some (Channel ''127.0.0.1:8080'')
   \<and> map_option host (janus_oracle_server_create False False None 8080
                         :: nat JanusOracleServer option) = Some ''127.0.0.1''
   \<and> janus_oracle_doc_update False (Some sample_client) None None (Some False)
       = janus_oracle_doc_update False (Some sample_client) (Some []) (Some []) (Some False)
   \<and> fst (janus_oracle_doc_update False (Some sample_client) None None (Some False)) = 2
   \<and> fst (janus_oracle_hover_at False (Some sample_client) None 1 1 (Some None) []) = 0
   \<and> janus_oracle_doc_update False (Some sample_client) None (Some ''text'') (Some False)
       = (0, Some True)
   \<and> fst (janus_oracle_definition_at False (Some sample_client) None 0 1
              (Some False) (Some None) (Some 0) (Some 0) []) = 2"
proof -
  have v: "stub sample_client = Some (served_by sample_server 0)"
    by (simp add: sample_client_def)
  note t = null_strings_are_defaulted
      [where env = reachable and p = 8080 and c = sample_client
         and st = "served_by sample_server 0" and thr = False and ok_out = "Some False"
         and cl = "Some sample_client" and content = None and uri = "Some []"
         and 'w = nat]
  note u = null_strings_are_defaulted
      [where c = sample_client and st = "served_by sample_server 0"
         and ok_out = "Some False" and content = "Some ''text''"
         and line = 0 and character = 1 and found_out = "Some False"
         and uri_out = "Some None" and def_line_out = "Some 0"
         and def_character_out = "Some 0" and h = "[]" and 'w = nat,
       THEN conjunct2, THEN conjunct2, THEN conjunct2, THEN conjunct2, THEN conjunct2,
       THEN conjunct2, THEN conjunct2, THEN conjunct2, THEN conjunct2, THEN conjunct2,
       THEN conjunct2, THEN conjunct2, rule_format, OF v]
  note w = null_strings_are_defaulted
      [where c = sample_client and st = "served_by sample_server 0"
         and ok_out = "Some False" and content = None
         and line = 1 and character = 1 and markdown_out = "Some None" and h = "[]"
         and 'w = nat,
       THEN conjunct2, THEN conjunct2, THEN conjunct2, THEN conjunct2, THEN conjunct2,
       THEN conjunct2, THEN conjunct2, THEN conjunct2, THEN conjunct2, THEN conjunct2,
       THEN conjunct2, THEN conjunct2, rule_format, OF v]
  have r: "janus_oracle_client_connect reachable None 8080 \<noteq> None"
    by (simp add: janus_oracle_client_connect_def reachable_def)
  from t [THEN conjunct2, THEN conjunct1] r
  have 1: "map_option channel (janus_oracle_client_connect reachable None 8080)
     = Some (Channel ''127.0.0.1:8080'')"
    by (simp add: to_string.simps)
  from t [THEN conjunct2, THEN conjunct2, THEN conjunct2, THEN conjunct1]
  have 2: "map_option host (janus_oracle_server_create False False None 8080
                         :: nat JanusOracleServer option) = Some ''127.0.0.1''"
    by simp
  from t [THEN conjunct2, THEN conjunct2, THEN conjunct2, THEN conjunct2, THEN conjunct1]
       t [THEN conjunct2, THEN conjunct2, THEN conjunct2, THEN conjunct2, THEN conjunct2,
          THEN conjunct1]
  have 3: "janus_oracle_doc_update False (Some sample_client) None None (Some False)
       = janus_oracle_doc_update False (Some sample_client) (Some []) (Some []) (Some False)"
    by simp
  from w [THEN conjunct1]
  have 4: "fst (janus_oracle_doc_update False (Some sample_client) None None (Some False)) = 2"
    by (simp add: sample_defs)
  from w [THEN conjunct2, THEN conjunct2, THEN conjunct1]
  have 5: "fst (janus_oracle_hover_at False (Some sample_client) None 1 1 (Some None) []) = 0"
    by (simp add: sample_defs)
  from u [THEN conjunct1]
  have 6: "janus_oracle_doc_update False (Some sample_client) None (Some ''text'') (Some False)
       = (0, Some True)"
    by (simp add: sample_defs)
  from u [THEN conjunct2, THEN conjunct2, THEN conjunct2, THEN conjunct1]
  have 7: "fst (janus_oracle_definition_at False (Some sample_client) None 0 1
              (Some False) (Some None) (Some 0) (Some 0) []) = 2"
    by (simp add: sample_defs)
  from 1 2 3 4 5 6 7 show ?thesis by simp
qed



end
